theory Spec2Isabelle
  imports Complex_Main "HOL-Library.Log_Nat" "HOL-Library.Multiset" "HOL-Library.Sublist"
    "HOL-Library.Product_Lexorder"
begin

section \<open>Python values\<close>

subsection \<open>Floats\<close>

text \<open>
  A Python \<^verbatim>\<open>float\<close> is an IEEE 754 binary64 number.  A finite float is represented by the
  rational number it denotes (the sign of a zero is not represented; no operation modelled
  here depends on it).  \<open>float_round\<close> is rounding to the nearest binary64 value, ties to
  even: the spacing of the floats around \<open>q\<close> is \<open>2 ^ (e - 52)\<close> where \<open>e\<close> is the binary
  exponent of \<open>q\<close>, and never less than \<open>2 ^ -1074\<close> (the subnormal range).
\<close>

datatype pyfloat = Finite rat | PosInf | NegInf | NaN

definition ilog2 :: "rat \<Rightarrow> int" where
  "ilog2 q = (let (a, b) = quotient_of q; e = bitlen a - bitlen b
              in if q < power_int 2 e then e - 1 else e)"

definition round_half_even :: "rat \<Rightarrow> int" where
  "round_half_even q = (let f = \<lfloor>q\<rfloor>; r = q - of_int f
     in if r < 1 / 2 then f else if 1 / 2 < r then f + 1 else if even f then f else f + 1)"

definition float_round :: "rat \<Rightarrow> rat" where
  "float_round q = (if q = 0 then 0 else
     let e = max (ilog2 \<bar>q\<bar>) (- 1022); u = power_int 2 (e - 52)
     in of_int (round_half_even (q / u)) * u)"

text \<open>The result of a float operation whose exact value is \<open>q\<close>: rounded, infinite on overflow.\<close>

definition to_float :: "rat \<Rightarrow> pyfloat" where
  "to_float q = (let r = float_round q
     in if 2 ^ 1024 \<le> r then PosInf else if r \<le> - (2 ^ 1024) then NegInf else Finite r)"

text \<open>The float literals of the source.\<close>

definition float_100 :: pyfloat where "float_100 = Finite 100"

definition float_0_01 :: rat where "float_0_01 = float_round (1 / 100)"

definition float_1_0 :: rat where "float_1_0 = 1"

subsection \<open>JSON values\<close>

text \<open>
  What \<^verbatim>\<open>response.json()\<close> returns.  The list of a \<open>JObj\<close> holds the items of the
  dictionary; a key is looked up with \<open>map_of\<close>.
\<close>

datatype json =
    JNull
  | JBool bool
  | JInt int
  | JFloat pyfloat
  | JStr string
  | JArr "json list"
  | JObj "(string \<times> json) list"

subsection \<open>Exceptions\<close>

datatype transport = ConnectionError | Timeout

datatype http_detail = NoDetail | GraphQLErrorsDetail json | ResponseText string

datatype exn =
    ZeroDivisionError
  | OverflowError
  | KeyError string
  | IndexError
  | TypeError
  | AttributeError
  | ValueError
  | ContractCallError string
  | RequestException transport
  | HTTPError int
  | RequestsJSONDecodeError
  | Exception_HTTP int string http_detail
  | Exception_GraphQL json
  | Exception_RequestFailed exn

subsection \<open>Arithmetic\<close>

text \<open>
  \<^verbatim>\<open>a / b\<close> on two ints: the correctly rounded quotient, \<^verbatim>\<open>ZeroDivisionError\<close> for
  \<^verbatim>\<open>b == 0\<close>, \<^verbatim>\<open>OverflowError\<close> when the quotient is too large for a float.
\<close>

definition int_truediv :: "int \<Rightarrow> int \<Rightarrow> exn + pyfloat" where
  "int_truediv a b =
     (if b = 0 then Inl ZeroDivisionError
      else let r = float_round (of_int a / of_int b)
           in if 2 ^ 1024 \<le> \<bar>r\<bar> then Inl OverflowError else Inr (Finite r))"

text \<open>\<^verbatim>\<open>x / y\<close> on two floats: Python raises for a zero divisor before dividing.\<close>

fun float_truediv :: "pyfloat \<Rightarrow> pyfloat \<Rightarrow> exn + pyfloat" where
  "float_truediv x (Finite b) =
     (if b = 0 then Inl ZeroDivisionError
      else Inr (case x of
                  Finite a \<Rightarrow> to_float (a / b)
                | PosInf \<Rightarrow> (if 0 < b then PosInf else NegInf)
                | NegInf \<Rightarrow> (if 0 < b then NegInf else PosInf)
                | NaN \<Rightarrow> NaN))"
| "float_truediv (Finite a) PosInf = Inr (Finite 0)"
| "float_truediv (Finite a) NegInf = Inr (Finite 0)"
| "float_truediv x y = Inr NaN"

fun float_mul :: "pyfloat \<Rightarrow> pyfloat \<Rightarrow> pyfloat" where
  "float_mul (Finite a) (Finite b) = to_float (a * b)"
| "float_mul NaN y = NaN"
| "float_mul x NaN = NaN"
| "float_mul (Finite a) PosInf = (if a = 0 then NaN else if 0 < a then PosInf else NegInf)"
| "float_mul (Finite a) NegInf = (if a = 0 then NaN else if 0 < a then NegInf else PosInf)"
| "float_mul PosInf (Finite b) = (if b = 0 then NaN else if 0 < b then PosInf else NegInf)"
| "float_mul NegInf (Finite b) = (if b = 0 then NaN else if 0 < b then NegInf else PosInf)"
| "float_mul PosInf PosInf = PosInf"
| "float_mul PosInf NegInf = NegInf"
| "float_mul NegInf PosInf = NegInf"
| "float_mul NegInf NegInf = PosInf"

fun float_sub :: "pyfloat \<Rightarrow> pyfloat \<Rightarrow> pyfloat" where
  "float_sub (Finite a) (Finite b) = to_float (a - b)"
| "float_sub NaN y = NaN"
| "float_sub x NaN = NaN"
| "float_sub (Finite a) PosInf = NegInf"
| "float_sub (Finite a) NegInf = PosInf"
| "float_sub PosInf PosInf = NaN"
| "float_sub NegInf NegInf = NaN"
| "float_sub PosInf y = PosInf"
| "float_sub NegInf y = NegInf"


fun float_gt :: "pyfloat \<Rightarrow> rat \<Rightarrow> bool" where
  "float_gt (Finite a) c = (c < a)"
| "float_gt PosInf c = True"
| "float_gt NegInf c = False"
| "float_gt NaN c = False"

text \<open>
  The floats other than NaN are linearly ordered; \<open>float_rank\<close> places them in the
  lexicographic order of pairs, minus infinity first and plus infinity last.
\<close>

fun float_rank :: "pyfloat \<Rightarrow> int \<times> rat" where
  "float_rank NegInf = (- 1, 0)"
| "float_rank (Finite a) = (0, a)"
| "float_rank PosInf = (1, 0)"
| "float_rank NaN = (2, 0)"

section \<open>On-chain reads\<close>

text \<open>
  A contract call \<^verbatim>\<open>contract.functions.totalSupply().call()\<close> either raises or returns the
  decoded \<^verbatim>\<open>uint256\<close>, a Python int from 0 to \<open>2 ^ 256 - 1\<close>.  Its outcome is an input of
  the model.
\<close>

type_synonym call_outcome = "exn + int"

text \<open>The scaling written at every read site: \<^verbatim>\<open><call>() / 10**d\<close>, with \<open>d\<close> 18 or 6.\<close>

definition on_chain_scale :: "int \<Rightarrow> nat \<Rightarrow> exn + pyfloat" where
  "on_chain_scale v d = int_truediv v (10 ^ d)"

record supply_info =
  lvlUSD_supply :: pyfloat
  slvlUSD_supply :: pyfloat
  percentage :: pyfloat

text \<open>
  \<^verbatim>\<open>get_supply_info\<close> of main.py (the same three statements are lines 40 to 44 of
  get_lvlUSD_slvlUSD_supply.py, run at import).  The statements run in order, so a raising
  first call leaves the second call unmade.
\<close>

definition get_supply_info :: "call_outcome \<Rightarrow> call_outcome \<Rightarrow> exn + supply_info" where
  "get_supply_info lvlUSD_call slvlUSD_call =
     (case lvlUSD_call of Inl e \<Rightarrow> Inl e | Inr lv \<Rightarrow>
      case on_chain_scale lv 18 of Inl e \<Rightarrow> Inl e | Inr lvlUSD \<Rightarrow>
      case slvlUSD_call of Inl e \<Rightarrow> Inl e | Inr sv \<Rightarrow>
      case on_chain_scale sv 18 of Inl e \<Rightarrow> Inl e | Inr slvlUSD \<Rightarrow>
      case float_truediv slvlUSD lvlUSD of Inl e \<Rightarrow> Inl e | Inr ratio \<Rightarrow>
        Inr \<lparr>lvlUSD_supply = lvlUSD, slvlUSD_supply = slvlUSD,
             percentage = float_mul ratio float_100\<rparr>)"

record aUSDC_info =
  total_supply :: pyfloat
  total_borrow :: pyfloat
  available_liquidity :: pyfloat

definition get_aUSDC_situation :: "call_outcome \<Rightarrow> call_outcome \<Rightarrow> exn + aUSDC_info" where
  "get_aUSDC_situation supply_call borrow_call =
     (case supply_call of Inl e \<Rightarrow> Inl e | Inr sv \<Rightarrow>
      case on_chain_scale sv 6 of Inl e \<Rightarrow> Inl e | Inr current_supply \<Rightarrow>
      case borrow_call of Inl e \<Rightarrow> Inl e | Inr bv \<Rightarrow>
      case on_chain_scale bv 6 of Inl e \<Rightarrow> Inl e | Inr current_borrow \<Rightarrow>
        Inr \<lparr>total_supply = current_supply, total_borrow = current_borrow,
             available_liquidity = float_sub current_supply current_borrow\<rparr>)"

section \<open>Operations on JSON values\<close>

fun is_prefix :: "string \<Rightarrow> string \<Rightarrow> bool" where
  "is_prefix [] s = True"
| "is_prefix (c # cs) [] = False"
| "is_prefix (c # cs) (d # ds) = (c = d \<and> is_prefix cs ds)"

fun is_substring :: "string \<Rightarrow> string \<Rightarrow> bool" where
  "is_substring k [] = (k = [])"
| "is_substring k (c # cs) = (is_prefix k (c # cs) \<or> is_substring k cs)"

text \<open>\<^verbatim>\<open>key in x\<close>: a key of a dict, an element of a list, a substring of a string.\<close>

fun json_contains :: "string \<Rightarrow> json \<Rightarrow> exn + bool" where
  "json_contains key (JObj kvs) = Inr (map_of kvs key \<noteq> None)"
| "json_contains key (JArr xs) = Inr (JStr key \<in> set xs)"
| "json_contains key (JStr s) = Inr (is_substring key s)"
| "json_contains key x = Inl TypeError"

text \<open>\<^verbatim>\<open>x[key]\<close> with a string key.\<close>

fun json_subscript :: "json \<Rightarrow> string \<Rightarrow> exn + json" where
  "json_subscript (JObj kvs) key =
     (case map_of kvs key of None \<Rightarrow> Inl (KeyError key) | Some v \<Rightarrow> Inr v)"
| "json_subscript x key = Inl TypeError"

text \<open>\<^verbatim>\<open>x.get(key, default)\<close>: only a dict has the method.\<close>

fun json_get :: "json \<Rightarrow> string \<Rightarrow> json \<Rightarrow> exn + json" where
  "json_get (JObj kvs) key dflt =
     Inr (case map_of kvs key of None \<Rightarrow> dflt | Some v \<Rightarrow> v)"
| "json_get x key dflt = Inl AttributeError"

text \<open>The truth value of \<^verbatim>\<open>x\<close> in \<^verbatim>\<open>if x:\<close>.\<close>

fun json_truthy :: "json \<Rightarrow> bool" where
  "json_truthy JNull = False"
| "json_truthy (JBool b) = b"
| "json_truthy (JInt i) = (i \<noteq> 0)"
| "json_truthy (JFloat f) = (f \<noteq> Finite 0)"
| "json_truthy (JStr s) = (s \<noteq> [])"
| "json_truthy (JArr xs) = (xs \<noteq> [])"
| "json_truthy (JObj kvs) = (kvs \<noteq> [])"

text \<open>The values \<^verbatim>\<open>for y in x\<close> runs through.\<close>

fun json_iter :: "json \<Rightarrow> exn + json list" where
  "json_iter (JArr xs) = Inr xs"
| "json_iter (JObj kvs) = Inr (map (\<lambda>kv. JStr (fst kv)) kvs)"
| "json_iter (JStr s) = Inr (map (\<lambda>c. JStr [c]) s)"
| "json_iter x = Inl TypeError"

text \<open>
  \<^verbatim>\<open>float(x)\<close>.  The conversion of an int rounds, and raises when the int is too large; the
  parsing of a string is a parameter (\<open>None\<close> where Python raises \<^verbatim>\<open>ValueError\<close>).
\<close>

definition int_to_float :: "int \<Rightarrow> exn + pyfloat" where
  "int_to_float i = (let r = float_round (of_int i)
     in if 2 ^ 1024 \<le> \<bar>r\<bar> then Inl OverflowError else Inr (Finite r))"

fun py_float :: "(string \<Rightarrow> pyfloat option) \<Rightarrow> json \<Rightarrow> exn + pyfloat" where
  "py_float parse (JFloat f) = Inr f"
| "py_float parse (JInt i) = int_to_float i"
| "py_float parse (JBool b) = Inr (Finite (if b then 1 else 0))"
| "py_float parse (JStr s) = (case parse s of None \<Rightarrow> Inl ValueError | Some f \<Rightarrow> Inr f)"
| "py_float parse x = Inl TypeError"

text \<open>\<^verbatim>\<open>x > c\<close> for a finite float \<open>c\<close>: numbers compare by value, anything else raises.\<close>

fun json_gt :: "json \<Rightarrow> rat \<Rightarrow> exn + bool" where
  "json_gt (JInt i) c = Inr (c < of_int i)"
| "json_gt (JBool b) c = Inr (c < (if b then 1 else 0))"
| "json_gt (JFloat (Finite f)) c = Inr (c < f)"
| "json_gt (JFloat PosInf) c = Inr True"
| "json_gt (JFloat NegInf) c = Inr False"
| "json_gt (JFloat NaN) c = Inr False"
| "json_gt x c = Inl TypeError"

text \<open>Whether \<^verbatim>\<open>f"{x:.2f}"\<close> (or \<^verbatim>\<open>.6f\<close>) raises.\<close>

fun json_format_f :: "json \<Rightarrow> exn option" where
  "json_format_f (JFloat f) = None"
| "json_format_f (JInt i) = (case int_to_float i of Inl e \<Rightarrow> Some e | Inr f \<Rightarrow> None)"
| "json_format_f (JBool b) = None"
| "json_format_f (JStr s) = Some ValueError"
| "json_format_f x = Some TypeError"

section \<open>HTTP\<close>

text \<open>
  A request either raises an exception of \<^verbatim>\<open>requests\<close> (connection error, timeout) or gets a
  response.  \<open>resp_text\<close> is \<^verbatim>\<open>response.text\<close> and \<open>body\<close> is what \<^verbatim>\<open>response.json()\<close> returns,
  \<open>None\<close> when the text of the response is not JSON and \<^verbatim>\<open>response.json()\<close> raises.  The outcome of the \<open>i\<close>-th request sent to a
  service is an input of the model; a function that sends requests takes the number of
  requests sent so far and returns the number sent after it.
\<close>

record response =
  status_code :: int
  reason :: string
  resp_text :: string
  body :: "json option"

datatype http_outcome = Raised transport | Responded response

type_synonym outcomes = "nat \<Rightarrow> http_outcome"

section \<open>The Zapper client\<close>

text \<open>
  The text added to the message of a failed status, lines 210 to 218 of
  get_lvlUSD_portfolio_zapper.py; the bare \<^verbatim>\<open>except\<close> falls back to the text of the response.
\<close>

definition http_error_detail :: "response \<Rightarrow> http_detail" where
  "http_error_detail resp =
     (if resp_text resp = [] then NoDetail
      else case body resp of
             None \<Rightarrow> ResponseText (resp_text resp)
           | Some error_data \<Rightarrow>
               (case json_contains ''errors'' error_data of
                  Inl e \<Rightarrow> ResponseText (resp_text resp)
                | Inr False \<Rightarrow> ResponseText (resp_text resp)
                | Inr True \<Rightarrow>
                    (case json_subscript error_data ''errors'' of
                       Inl e \<Rightarrow> ResponseText (resp_text resp)
                     | Inr errs \<Rightarrow> GraphQLErrorsDetail errs)))"

text \<open>
  The \<^verbatim>\<open>try\<close> statement of \<^verbatim>\<open>ZapperAPI.fetch_defi_positions\<close>, given the outcome of
  \<^verbatim>\<open>self.session.post\<close>.  The two \<^verbatim>\<open>except\<close> clauses catch the exceptions of \<^verbatim>\<open>requests\<close>
  and raise an \<^verbatim>\<open>Exception\<close> again; the \<^verbatim>\<open>Exception\<close>s raised inside the \<^verbatim>\<open>try\<close> and the
  errors of the two subscripts pass them.  The failure of \<^verbatim>\<open>response.json()\<close> is an exception
  of \<^verbatim>\<open>requests\<close> since its version 2.27 and is caught by the first clause; with an older
  version the second clause catches it, and raises an \<^verbatim>\<open>Exception\<close> as well.
\<close>

definition zapper_result :: "http_outcome \<Rightarrow> exn + json" where
  "zapper_result outcome =
     (case outcome of
        Raised t \<Rightarrow> Inl (Exception_RequestFailed (RequestException t))
      | Responded resp \<Rightarrow>
          if status_code resp \<noteq> 200
          then Inl (Exception_HTTP (status_code resp) (reason resp) (http_error_detail resp))
          else case body resp of
                 None \<Rightarrow> Inl (Exception_RequestFailed RequestsJSONDecodeError)
               | Some data \<Rightarrow>
                   (case json_contains ''errors'' data of
                      Inl e \<Rightarrow> Inl e
                    | Inr True \<Rightarrow>
                        (case json_subscript data ''errors'' of
                           Inl e \<Rightarrow> Inl e
                         | Inr errs \<Rightarrow> Inl (Exception_GraphQL errs))
                    | Inr False \<Rightarrow> json_subscript data ''data''))"

text \<open>\<^verbatim>\<open>ZapperAPI.fetch_defi_positions\<close>: one request, then the statement above.\<close>

definition fetch_defi_positions :: "outcomes \<Rightarrow> nat \<Rightarrow> (exn + json) \<times> nat" where
  "fetch_defi_positions net n = (zapper_result (net n), Suc n)"

text \<open>\<^verbatim>\<open>test_api_connection\<close>: every exception is caught and gives \<^verbatim>\<open>False\<close>.\<close>

definition test_api_connection :: "outcomes \<Rightarrow> nat \<Rightarrow> bool \<times> nat" where
  "test_api_connection net n =
     (case net n of
        Raised t \<Rightarrow> False
      | Responded resp \<Rightarrow>
          if status_code resp = 200
          then (case body resp of
                  None \<Rightarrow> False
                | Some data \<Rightarrow>
                    (case json_contains ''errors'' data of
                       Inl e \<Rightarrow> False
                     | Inr has_errors \<Rightarrow> \<not> has_errors))
          else False,
      Suc n)"

section \<open>The Morpho client\<close>

text \<open>
  \<^verbatim>\<open>MorphoAPIClient._execute_query\<close>, given the outcome of \<^verbatim>\<open>requests.post\<close>: nothing is
  caught.  \<^verbatim>\<open>raise_for_status\<close> raises for the status codes from 400 to 599.
\<close>

definition morpho_result :: "http_outcome \<Rightarrow> exn + json" where
  "morpho_result outcome =
     (case outcome of
        Raised t \<Rightarrow> Inl (RequestException t)
      | Responded resp \<Rightarrow>
          if 400 \<le> status_code resp \<and> status_code resp < 600
          then Inl (HTTPError (status_code resp))
          else case body resp of
                 None \<Rightarrow> Inl RequestsJSONDecodeError
               | Some result \<Rightarrow>
                   (case json_contains ''errors'' result of
                      Inl e \<Rightarrow> Inl e
                    | Inr True \<Rightarrow>
                        (case json_subscript result ''errors'' of
                           Inl e \<Rightarrow> Inl e
                         | Inr errs \<Rightarrow> Inl (Exception_GraphQL errs))
                    | Inr False \<Rightarrow> json_subscript result ''data''))"

definition execute_query :: "outcomes \<Rightarrow> nat \<Rightarrow> (exn + json) \<times> nat" where
  "execute_query net n = (morpho_result (net n), Suc n)"

text \<open>\<^verbatim>\<open>get_market_by_id\<close> builds the query and its variables and runs it.\<close>

definition get_market_by_id :: "outcomes \<Rightarrow> nat \<Rightarrow> string \<Rightarrow> (exn + json) \<times> nat" where
  "get_market_by_id net n unique_key = execute_query net n"

section \<open>The market reports\<close>

text \<open>
  One constructor for each \<^verbatim>\<open>print\<close> in the loop of \<^verbatim>\<open>get_stakehouse_situation\<close> and of
  \<^verbatim>\<open>get_lvlusd_pendle_situation\<close> (the title printed before the loop is left out).  A symbol is printed as it is, whatever JSON value it is.
  A float argument is the value that the format \<^verbatim>\<open>:,.2f\<close> or \<^verbatim>\<open>:.2f\<close> then displays with two
  decimals; the three percentages and the reward rate are followed by a per cent sign.
\<close>

datatype line =
    Market string
  | Collateral json
  | LoanAsset json
  | TotalSupply pyfloat json
  | TotalBorrow pyfloat json
  | AvailableLiquidity pyfloat json
  | SupplyAPY pyfloat
  | BorrowAPY pyfloat
  | Utilization pyfloat
  | Rewards
  | RewardSupplyAPR json pyfloat
  | MarketNotFound string
  | ErrorFetching string exn

text \<open>
  A \<^verbatim>\<open>print\<close> whose argument raises prints nothing and ends the \<^verbatim>\<open>try\<close> block; the lines
  printed before it stay printed.
\<close>

fun run_prints :: "(exn + line) list \<Rightarrow> line list \<times> exn option" where
  "run_prints [] = ([], None)"
| "run_prints (Inl e # rest) = ([], Some e)"
| "run_prints (Inr l # rest) = (let (ls, r) = run_prints rest in (l # ls, r))"

text \<open>\<^verbatim>\<open>m[k1][k2]\<close>.\<close>

definition json_path2 :: "json \<Rightarrow> string \<Rightarrow> string \<Rightarrow> exn + json" where
  "json_path2 m k1 k2 =
     (case json_subscript m k1 of Inl e \<Rightarrow> Inl e | Inr x \<Rightarrow> json_subscript x k2)"

text \<open>\<^verbatim>\<open>float(m['state'][k])\<close> and \<^verbatim>\<open>float(m['state'][k]) * 100\<close>.\<close>

definition state_float :: "(string \<Rightarrow> pyfloat option) \<Rightarrow> json \<Rightarrow> string \<Rightarrow> exn + pyfloat" where
  "state_float parse m k =
     (case json_path2 m ''state'' k of Inl e \<Rightarrow> Inl e | Inr v \<Rightarrow> py_float parse v)"

definition state_percent :: "(string \<Rightarrow> pyfloat option) \<Rightarrow> json \<Rightarrow> string \<Rightarrow> exn + pyfloat" where
  "state_percent parse m k =
     (case state_float parse m k of Inl e \<Rightarrow> Inl e | Inr x \<Rightarrow> Inr (float_mul x float_100))"

text \<open>
  The line with an amount: the amount is evaluated, then the symbol of the loan asset, then
  the amount again (with the same result).
\<close>

definition amount_line ::
  "(pyfloat \<Rightarrow> json \<Rightarrow> line) \<Rightarrow> (string \<Rightarrow> pyfloat option) \<Rightarrow> json \<Rightarrow> string \<Rightarrow> exn + line" where
  "amount_line mk parse m k =
     (case state_float parse m k of Inl e \<Rightarrow> Inl e | Inr x \<Rightarrow>
      case json_path2 m ''loanAsset'' ''symbol'' of Inl e \<Rightarrow> Inl e | Inr symb \<Rightarrow> Inr (mk x symb))"

definition percent_line ::
  "(pyfloat \<Rightarrow> line) \<Rightarrow> (string \<Rightarrow> pyfloat option) \<Rightarrow> json \<Rightarrow> string \<Rightarrow> exn + line" where
  "percent_line mk parse m k =
     (case state_percent parse m k of Inl e \<Rightarrow> Inl e | Inr p \<Rightarrow> Inr (mk p))"

text \<open>The line of one reward: \<^verbatim>\<open>reward['asset']['symbol']\<close>, \<^verbatim>\<open>float(reward['supplyApr']) * 100\<close>.\<close>

definition reward_line :: "(string \<Rightarrow> pyfloat option) \<Rightarrow> json \<Rightarrow> exn + line" where
  "reward_line parse reward =
     (case json_path2 reward ''asset'' ''symbol'' of Inl e \<Rightarrow> Inl e | Inr symb \<Rightarrow>
      case json_subscript reward ''supplyApr'' of Inl e \<Rightarrow> Inl e | Inr v \<Rightarrow>
      case py_float parse v of Inl e \<Rightarrow> Inl e | Inr x \<Rightarrow>
        Inr (RewardSupplyAPR symb (float_mul x float_100)))"

text \<open>The part after \<^verbatim>\<open>if m['state'].get('rewards'):\<close>.\<close>

definition reward_lines :: "(string \<Rightarrow> pyfloat option) \<Rightarrow> json \<Rightarrow> (exn + line) list" where
  "reward_lines parse m =
     (case json_subscript m ''state'' of Inl e \<Rightarrow> [Inl e] | Inr st \<Rightarrow>
      case json_get st ''rewards'' JNull of Inl e \<Rightarrow> [Inl e] | Inr rw \<Rightarrow>
        if json_truthy rw
        then Inr Rewards #
               (case json_path2 m ''state'' ''rewards'' of Inl e \<Rightarrow> [Inl e] | Inr rws \<Rightarrow>
                case json_iter rws of Inl e \<Rightarrow> [Inl e] | Inr items \<Rightarrow>
                  map (reward_line parse) items)
        else [])"

text \<open>The prints of the branch \<^verbatim>\<open>if m:\<close>, in order.\<close>

definition market_lines ::
  "(string \<Rightarrow> pyfloat option) \<Rightarrow> string \<Rightarrow> json \<Rightarrow> (exn + line) list" where
  "market_lines parse name m =
     [Inr (Market name),
      (case json_path2 m ''collateralAsset'' ''symbol'' of Inl e \<Rightarrow> Inl e
        | Inr symb \<Rightarrow> Inr (Collateral symb)),
      (case json_path2 m ''loanAsset'' ''symbol'' of Inl e \<Rightarrow> Inl e
        | Inr symb \<Rightarrow> Inr (LoanAsset symb)),
      amount_line TotalSupply parse m ''supplyAssetsUsd'',
      amount_line TotalBorrow parse m ''borrowAssetsUsd'',
      amount_line AvailableLiquidity parse m ''liquidityAssetsUsd'',
      percent_line SupplyAPY parse m ''supplyApy'',
      percent_line BorrowAPY parse m ''borrowApy'',
      percent_line Utilization parse m ''utilization'']
     @ reward_lines parse m"

text \<open>
  One turn of the loop \<^verbatim>\<open>for market in ...\<close>: the \<^verbatim>\<open>try\<close> block with its
  \<^verbatim>\<open>except Exception\<close>, which prints the error and lets the loop go on.
\<close>

definition report_market ::
  "(string \<Rightarrow> pyfloat option) \<Rightarrow> string \<Rightarrow> exn + json \<Rightarrow> line list" where
  "report_market parse name fetched =
     (case fetched of
        Inl e \<Rightarrow> [ErrorFetching name e]
      | Inr market_data \<Rightarrow>
          (case json_subscript market_data ''marketByUniqueKey'' of
             Inl e \<Rightarrow> [ErrorFetching name e]
           | Inr m \<Rightarrow>
               if json_truthy m
               then (let (ls, r) = run_prints (market_lines parse name m)
                     in ls @ (case r of None \<Rightarrow> [] | Some e \<Rightarrow> [ErrorFetching name e]))
               else [MarketNotFound name]))"

text \<open>The loop over the markets, a list of names and market ids.\<close>

fun report_markets ::
  "(string \<Rightarrow> pyfloat option) \<Rightarrow> outcomes \<Rightarrow> nat \<Rightarrow> (string \<times> string) list \<Rightarrow> line list \<times> nat" where
  "report_markets parse net n [] = ([], n)"
| "report_markets parse net n (market # markets) =
     (let (fetched, n') = get_market_by_id net n (snd market);
          ls = report_market parse (fst market) fetched;
          (rest, n'') = report_markets parse net n' markets
      in (ls @ rest, n''))"

definition stakehouse_markets :: "(string \<times> string) list" where
  "stakehouse_markets =
     [(''cbBTC/USDC'', ''0x64d65c9a2d91c36d56fbc42d69e979335320169b3df63bf92789e2c8883fcc64''),
      (''WBTC/USDC'', ''0x3a85e619751152991742810df6ec69ce473daef99e28a64ab2340d7b7ccfee49''),
      (''wstETH/USDC'', ''0xb323495f7e4148be5643a4ea4a8221eef163e4bccfdedc2a6f4696baacbc86cc'')]"

definition get_stakehouse_situation ::
  "(string \<Rightarrow> pyfloat option) \<Rightarrow> outcomes \<Rightarrow> nat \<Rightarrow> line list \<times> nat" where
  "get_stakehouse_situation parse net n = report_markets parse net n stakehouse_markets"

definition lvlusd_markets :: "(string \<times> string) list" where
  "lvlusd_markets =
     [(''PT-lvlUSD-25SEP2025/lvlUSD'',
       ''0xa4bb66e932dfa4b54c0b612dfffdbdc426f7906306a78178acd8562739121b9a''),
      (''PT-lvlUSD-25SEP2025/USDC'',
       ''0xe61a903174169e4897669e9bc4419eb7582b36d1a3d3df633dccab88da6e2ccd'')]"

definition get_lvlusd_pendle_situation ::
  "(string \<Rightarrow> pyfloat option) \<Rightarrow> outcomes \<Rightarrow> nat \<Rightarrow> line list \<times> nat" where
  "get_lvlusd_pendle_situation parse net n = report_markets parse net n lvlusd_markets"

section \<open>DeFi positions\<close>

text \<open>
  The dataclass \<^verbatim>\<open>DeFiPosition\<close>, with the types it declares.  A field declared \<^verbatim>\<open>float\<close> is
  filled from the response and holds any number that can come from there: \<open>Finite\<close> for an
  int or a finite float, else an infinity or NaN.
\<close>

record DeFiPosition =
  app_name :: string
  app_slug :: string
  network :: string
  chain_id :: int
  position_type :: string
  balance_usd :: pyfloat
  position_address :: string
  symbol :: string
  balance :: pyfloat
  underlying_tokens :: "json list"
  display_label :: string
  meta_type :: string

definition get_claimable_positions :: "DeFiPosition list \<Rightarrow> DeFiPosition list" where
  "get_claimable_positions defi_positions =
     [pos \<leftarrow> defi_positions.
        meta_type pos = ''CLAIMABLE'' \<and> float_gt (balance_usd pos) float_0_01]"

text \<open>
  \<^verbatim>\<open>xs.sort(key=lambda x: x.balance_usd, reverse=True)\<close>.  Python's sort is stable and
  compares the keys with \<^verbatim>\<open><\<close> only.  When no key is NaN the keys are linearly ordered and
  the result is determined: with \<^verbatim>\<open>reverse=True\<close> the list is reversed, sorted by increasing
  key, and reversed again, so that equal keys keep their order.  When a key is NaN, \<^verbatim>\<open><\<close> is
  not an order on the keys, and the arrangement the sort leaves is that of its
  implementation (CPython leaves the balances 1.0, NaN, 2.0 as they are, for instance); it
  is a parameter of the model, \<open>nan_order\<close>.  The sort never loses or duplicates an element,
  so the parameter is followed where it gives a permutation of the list.
\<close>

definition sort_by_balance_desc ::
  "(DeFiPosition list \<Rightarrow> DeFiPosition list) \<Rightarrow> DeFiPosition list \<Rightarrow> DeFiPosition list" where
  "sort_by_balance_desc nan_order xs =
     (if list_all (\<lambda>x. balance_usd x \<noteq> NaN) xs
      then rev (sort_key (\<lambda>x. float_rank (balance_usd x)) (rev xs))
      else if mset (nan_order xs) = mset xs then nan_order xs else xs)"

text \<open>
  The statements of a loop body that may raise, run in order: the first exception ends the
  run.
\<close>

fun first_error :: "exn option list \<Rightarrow> exn option" where
  "first_error [] = None"
| "first_error (None # rest) = first_error rest"
| "first_error (Some e # rest) = Some e"

text \<open>
  What the body of the inner loop of \<^verbatim>\<open>print_defi_report\<close> raises for one token of a
  position (lines 420 to 431).
\<close>

definition defi_token_error :: "string \<Rightarrow> json \<Rightarrow> exn option" where
  "defi_token_error ptype token_info =
     (if ptype = ''contract-position''
      then (case json_get token_info ''token'' (JObj []) of Inl e \<Rightarrow> Some e | Inr token_data \<Rightarrow>
            case json_get token_info ''metaType'' (JStr []) of Inl e \<Rightarrow> Some e | Inr mt \<Rightarrow>
            case json_get token_data ''symbol'' (JStr ''Unknown'') of Inl e \<Rightarrow> Some e | Inr symb \<Rightarrow>
            case json_get token_data ''balanceUSD'' (JInt 0) of Inl e \<Rightarrow> Some e | Inr busd \<Rightarrow>
            case json_gt busd float_0_01 of Inl e \<Rightarrow> Some e
              | Inr shown \<Rightarrow> if shown then json_format_f busd else None)
      else (case json_get token_info ''symbol'' (JStr ''Unknown'') of Inl e \<Rightarrow> Some e | Inr symb \<Rightarrow>
            case json_get token_info ''balanceUSD'' (JInt 0) of Inl e \<Rightarrow> Some e | Inr busd \<Rightarrow>
            case json_gt busd float_0_01 of Inl e \<Rightarrow> Some e
              | Inr shown \<Rightarrow> if shown then json_format_f busd else None))"

definition defi_position_error :: "DeFiPosition \<Rightarrow> exn option" where
  "defi_position_error position =
     (if underlying_tokens position \<noteq> [] \<and> float_gt (balance_usd position) float_1_0
      then first_error (map (defi_token_error (position_type position))
                          (take 3 (underlying_tokens position)))
      else None)"

text \<open>
  The summary built by \<^verbatim>\<open>get_defi_summary\<close>.  \<open>total_value_usd\<close> is the value found in the
  response, whatever it is; the entries that are only printed (the names of the chains, the
  summaries by application and by type, the time stamp) are left out.
\<close>

record summary =
  addresses :: "string list"
  chain_ids :: "int list option"
  total_value_usd :: json
  position_count :: nat

text \<open>
  \<^verbatim>\<open>print_defi_report\<close>, by its effect on the list it is given and the exception it raises, if
  any; the text it prints is not modelled.  Of the header only the format of the total
  value can raise.  The list is sorted in place before the positions are printed, so an
  exception raised while printing them leaves it sorted.
\<close>

definition print_defi_report ::
  "(DeFiPosition list \<Rightarrow> DeFiPosition list) \<Rightarrow> summary \<Rightarrow> DeFiPosition list
     \<Rightarrow> exn option \<times> DeFiPosition list" where
  "print_defi_report nan_order summ defi_positions =
     (case json_format_f (total_value_usd summ) of
        Some e \<Rightarrow> (Some e, defi_positions)
      | None \<Rightarrow>
          (let sorted_positions = sort_by_balance_desc nan_order defi_positions
           in (first_error (map defi_position_error sorted_positions), sorted_positions)))"

text \<open>What the body of the inner loop of \<^verbatim>\<open>print_claimable_report\<close> raises for one token.\<close>

definition claimable_token_error :: "json \<Rightarrow> exn option" where
  "claimable_token_error token_info =
     (case json_get token_info ''token'' (JObj []) of Inl e \<Rightarrow> Some e | Inr token_data \<Rightarrow>
      case json_get token_data ''symbol'' (JStr ''Unknown'') of Inl e \<Rightarrow> Some e | Inr symb \<Rightarrow>
      case json_get token_data ''balance'' (JInt 0) of Inl e \<Rightarrow> Some e | Inr bal \<Rightarrow>
      case json_get token_data ''balanceUSD'' (JInt 0) of Inl e \<Rightarrow> Some e | Inr busd \<Rightarrow>
      case json_gt busd float_0_01 of Inl e \<Rightarrow> Some e
        | Inr shown \<Rightarrow>
            if shown then first_error [json_format_f bal, json_format_f busd] else None)"

definition print_claimable_report ::
  "(DeFiPosition list \<Rightarrow> DeFiPosition list) \<Rightarrow> DeFiPosition list
     \<Rightarrow> exn option \<times> DeFiPosition list" where
  "print_claimable_report nan_order claimable_positions =
     (if claimable_positions = [] then (None, claimable_positions)
      else let sorted_positions = sort_by_balance_desc nan_order claimable_positions
           in (first_error
                 (map (\<lambda>position. first_error
                         (map claimable_token_error (underlying_tokens position)))
                    sorted_positions),
               sorted_positions))"

text \<open>
  \<^verbatim>\<open>ZapperAPI.get_defi_positions\<close>.  The traversal of the response that builds the positions
  (lines 232 to 298) is a parameter of the model, \<open>decode\<close>.
\<close>

definition get_defi_positions ::
  "(json \<Rightarrow> exn + DeFiPosition list) \<Rightarrow> outcomes \<Rightarrow> nat \<Rightarrow> (exn + DeFiPosition list) \<times> nat" where
  "get_defi_positions decode net n =
     (let (fetched, n') = fetch_defi_positions net n
      in (case fetched of Inl e \<Rightarrow> Inl e | Inr portfolio_data \<Rightarrow> decode portfolio_data, n'))"

text \<open>\<^verbatim>\<open>ZapperAPI.get_defi_summary\<close>, called without chain ids: two more requests.\<close>

definition get_defi_summary ::
  "(json \<Rightarrow> exn + DeFiPosition list) \<Rightarrow> outcomes \<Rightarrow> nat \<Rightarrow> string list \<Rightarrow> (exn + summary) \<times> nat"
  where
  "get_defi_summary decode net n addrs =
     (let (fetched, n') = fetch_defi_positions net n
      in case fetched of
           Inl e \<Rightarrow> (Inl e, n')
         | Inr portfolio_data \<Rightarrow>
             (let (decoded, n'') = get_defi_positions decode net n'
              in (case decoded of
                    Inl e \<Rightarrow> Inl e
                  | Inr defi_positions \<Rightarrow>
                      (case json_path2 portfolio_data ''portfolioV2'' ''appBalances'' of
                         Inl e \<Rightarrow> Inl e
                       | Inr app_balances \<Rightarrow>
                           (case json_subscript app_balances ''totalBalanceUSD'' of
                              Inl e \<Rightarrow> Inl e
                            | Inr total_usd \<Rightarrow>
                                Inr \<lparr>addresses = addrs, chain_ids = None,
                                     total_value_usd = total_usd,
                                     position_count = length defi_positions\<rparr>)),
                  n'')))"

record collateral =
  total_value :: json
  positions :: "DeFiPosition list"
  claimable :: "DeFiPosition list"

definition wallet_addresses :: "string list" where
  "wallet_addresses = [''0x834D9c7688ca1C10479931dE906bCC44879A0446'']"

text \<open>
  \<^verbatim>\<open>get_collateral_composition\<close> of main.py: \<open>None\<close> when the connection test fails and when
  anything in the \<^verbatim>\<open>try\<close> block raises.  The list of positions is the one that
  \<^verbatim>\<open>print_defi_report\<close> has sorted; the list of claimable positions is filtered from it and
  then sorted by \<^verbatim>\<open>print_claimable_report\<close>.
\<close>

definition get_collateral_composition ::
  "(json \<Rightarrow> exn + DeFiPosition list) \<Rightarrow> (DeFiPosition list \<Rightarrow> DeFiPosition list)
     \<Rightarrow> outcomes \<Rightarrow> nat \<Rightarrow> collateral option \<times> nat" where
  "get_collateral_composition decode nan_order net n =
     (let (connected, n1) = test_api_connection net n
      in if \<not> connected then (None, n1)
         else let (decoded, n2) = get_defi_positions decode net n1
              in case decoded of
                   Inl e \<Rightarrow> (None, n2)
                 | Inr defi_positions \<Rightarrow>
                     (let (summarised, n3) = get_defi_summary decode net n2 wallet_addresses
                      in (case summarised of
                            Inl e \<Rightarrow> None
                          | Inr summ \<Rightarrow>
                              (case print_defi_report nan_order summ defi_positions of
                                 (Some e, defi_positions') \<Rightarrow> None
                               | (None, defi_positions') \<Rightarrow>
                                   (case print_claimable_report nan_order
                                           (get_claimable_positions defi_positions') of
                                      (Some e, claimable_positions) \<Rightarrow> None
                                    | (None, claimable_positions) \<Rightarrow>
                                        Some \<lparr>total_value = total_value_usd summ,
                                              positions = defi_positions',
                                              claimable = claimable_positions\<rparr>)),
                          n3)))"

section \<open>The Curve pools\<close>

text \<open>
  The two ways \<^verbatim>\<open>get_token_balances\<close> reads a pool: one call of \<^verbatim>\<open>get_balances()\<close> that
  returns an array, or the two calls \<^verbatim>\<open>balances(0)\<close> and \<^verbatim>\<open>balances(1)\<close>.
\<close>

datatype pool_read = GetBalances "exn + int list" | Balances call_outcome call_outcome

datatype pool_report = PoolBalances pyfloat pyfloat | PoolError exn

text \<open>\<^verbatim>\<open>balances[i]\<close> on the returned array.\<close>

definition list_index :: "int list \<Rightarrow> nat \<Rightarrow> exn + int" where
  "list_index xs i = (if i < length xs then Inr (xs ! i) else Inl IndexError)"

text \<open>
  \<^verbatim>\<open>get_token_balances\<close>: the body of the \<^verbatim>\<open>try\<close> block, and the function, which prints
  either the balances or the exception and never raises.
\<close>

fun read_token_balances :: "pool_read \<Rightarrow> exn + pyfloat \<times> pyfloat" where
  "read_token_balances (GetBalances called) =
     (case called of Inl e \<Rightarrow> Inl e | Inr balances \<Rightarrow>
      case list_index balances 0 of Inl e \<Rightarrow> Inl e | Inr b0 \<Rightarrow>
      case on_chain_scale b0 6 of Inl e \<Rightarrow> Inl e | Inr lvlUSD_balance \<Rightarrow>
      case list_index balances 1 of Inl e \<Rightarrow> Inl e | Inr b1 \<Rightarrow>
      case on_chain_scale b1 18 of Inl e \<Rightarrow> Inl e | Inr other_token_balance \<Rightarrow>
        Inr (lvlUSD_balance, other_token_balance))"
| "read_token_balances (Balances called0 called1) =
     (case called0 of Inl e \<Rightarrow> Inl e | Inr b0 \<Rightarrow>
      case called1 of Inl e \<Rightarrow> Inl e | Inr b1 \<Rightarrow>
      case on_chain_scale b0 18 of Inl e \<Rightarrow> Inl e | Inr lvlUSD_balance \<Rightarrow>
      case on_chain_scale b1 18 of Inl e \<Rightarrow> Inl e | Inr other_token_balance \<Rightarrow>
        Inr (lvlUSD_balance, other_token_balance))"

definition get_token_balances :: "pool_read \<Rightarrow> pool_report" where
  "get_token_balances pool =
     (case read_token_balances pool of
        Inl e \<Rightarrow> PoolError e
      | Inr (lvlUSD_balance, other_token_balance) \<Rightarrow> PoolBalances lvlUSD_balance other_token_balance)"

definition get_curve_pools :: "pool_read \<Rightarrow> pool_read \<Rightarrow> pool_report \<times> pool_report" where
  "get_curve_pools usdc_pool slvlusd_pool =
     (get_token_balances usdc_pool, get_token_balances slvlusd_pool)"

section \<open>The dashboard\<close>

text \<open>
  Everything outside the program that one run of \<^verbatim>\<open>main\<close> of main.py meets: the state of
  the three Web3 connections, the outcome of each contract call, the outcomes of the
  requests to Zapper and to Morpho.  \<^verbatim>\<open>get_slvlusd_pendle_situation\<close> is imported from a module
  that is not among the sources; what a call of it does (raise, or print lines) is a
  parameter, \<open>slvlusd_pendle\<close>.  \<open>decode\<close>, \<open>nan_order\<close> and \<open>parse_float\<close> are the parameters
  described above.
\<close>

record env =
  connections :: "bool list"
  lvlUSD_call :: call_outcome
  slvlUSD_call :: call_outcome
  aEthUSDC_call :: call_outcome
  variableDebt_call :: call_outcome
  zapper_net :: outcomes
  morpho_net :: outcomes
  usdc_pool :: pool_read
  slvlusd_pool :: pool_read
  slvlusd_pendle :: "exn + line list"
  decode :: "json \<Rightarrow> exn + DeFiPosition list"
  nan_order :: "DeFiPosition list \<Rightarrow> DeFiPosition list"
  parse_float :: "string \<Rightarrow> pyfloat option"

definition check_web3_connections :: "bool list \<Rightarrow> bool" where
  "check_web3_connections conns = list_all (\<lambda>c. c) conns"

text \<open>
  What one run of \<^verbatim>\<open>main\<close> has fetched: for each section \<open>None\<close> when its function was not
  called or did not return, else what it returned (for the functions that only print, the
  lines printed).  \<open>dashboard_error\<close> is the exception reported by
  \<^verbatim>\<open>Error generating dashboard\<close>.
\<close>

record dashboard =
  warned :: bool
  supply_data :: "supply_info option"
  collateral_data :: "collateral option option"
  aUSDC_data :: "aUSDC_info option"
  stakehouse_data :: "line list option"
  curve_data :: "(pool_report \<times> pool_report) option"
  lvlusd_pendle_data :: "line list option"
  slvlusd_pendle_data :: "line list option"
  dashboard_error :: "exn option"

definition nothing_fetched :: "bool \<Rightarrow> dashboard" where
  "nothing_fetched w =
     \<lparr>warned = w, supply_data = None, collateral_data = None, aUSDC_data = None,
      stakehouse_data = None, curve_data = None, lvlusd_pendle_data = None,
      slvlusd_pendle_data = None, dashboard_error = None\<rparr>"

text \<open>
  \<^verbatim>\<open>main\<close>: the seven calls are the statements of one \<^verbatim>\<open>try\<close> block, so the first of them
  that raises ends the block; the \<^verbatim>\<open>except\<close> clause prints the error and the run completes.
\<close>

definition main :: "env \<Rightarrow> dashboard" where
  "main ev =
     (let d0 = nothing_fetched (\<not> check_web3_connections (connections ev))
      in case get_supply_info (lvlUSD_call ev) (slvlUSD_call ev) of
           Inl e \<Rightarrow> d0\<lparr>dashboard_error := Some e\<rparr>
         | Inr supply \<Rightarrow>
             (let d1 = d0\<lparr>supply_data := Some supply\<rparr>;
                  d2 = d1\<lparr>collateral_data :=
                          Some (fst (get_collateral_composition (decode ev) (nan_order ev) (zapper_net ev) 0))\<rparr>
              in case get_aUSDC_situation (aEthUSDC_call ev) (variableDebt_call ev) of
                   Inl e \<Rightarrow> d2\<lparr>dashboard_error := Some e\<rparr>
                 | Inr aUSDC \<Rightarrow>
                     (let d3 = d2\<lparr>aUSDC_data := Some aUSDC\<rparr>;
                          (stakehouse, n) = get_stakehouse_situation (parse_float ev) (morpho_net ev) 0;
                          d4 = d3\<lparr>stakehouse_data := Some stakehouse\<rparr>;
                          d5 = d4\<lparr>curve_data :=
                                  Some (get_curve_pools (usdc_pool ev) (slvlusd_pool ev))\<rparr>;
                          (lvlusd, n') = get_lvlusd_pendle_situation (parse_float ev) (morpho_net ev) n;
                          d6 = d5\<lparr>lvlusd_pendle_data := Some lvlusd\<rparr>
                      in case slvlusd_pendle ev of
                           Inl e \<Rightarrow> d6\<lparr>dashboard_error := Some e\<rparr>
                         | Inr slvlusd \<Rightarrow> d6\<lparr>slvlusd_pendle_data := Some slvlusd\<rparr>)))"

section \<open>Sample inputs\<close>

text \<open>Concrete responses and values at which the theorems below are evaluated.\<close>

definition sample_market :: json where
  "sample_market =
     JObj [(''collateralAsset'', JObj [(''symbol'', JStr ''WBTC'')]),
           (''loanAsset'', JObj [(''symbol'', JStr ''USDC'')]),
           (''state'',
            JObj [(''supplyAssetsUsd'', JFloat (Finite 1000000)),
                  (''borrowAssetsUsd'', JFloat (Finite 500000)),
                  (''liquidityAssetsUsd'', JFloat (Finite 500000)),
                  (''supplyApy'', JFloat (Finite (1 / 4))),
                  (''borrowApy'', JFloat (Finite (1 / 2))),
                  (''utilization'', JFloat (Finite (1 / 2))),
                  (''rewards'',
                   JArr [JObj [(''asset'', JObj [(''symbol'', JStr ''MORPHO'')]),
                               (''supplyApr'', JFloat (Finite (1 / 8)))]])])]"

definition sample_data :: json where
  "sample_data = JObj [(''marketByUniqueKey'', sample_market)]"

definition ok_response :: response where
  "ok_response =
     \<lparr>status_code = 200, reason = ''OK'', resp_text = ''{...}'',
      body = Some (JObj [(''data'', sample_data)])\<rparr>"

definition errors_response :: response where
  "errors_response =
     \<lparr>status_code = 200, reason = ''OK'', resp_text = ''{...}'',
      body = Some (JObj [(''data'', sample_data),
                         (''errors'', JArr [JObj [(''message'', JStr ''rate limited'')]])])\<rparr>"

definition timeout_then_ok :: outcomes where
  "timeout_then_ok i = (if i = 0 then Raised Timeout else Responded ok_response)"

definition ok_then_timeout :: outcomes where
  "ok_then_timeout i = (if i = 0 then Responded ok_response else Raised Timeout)"

definition errors_always :: outcomes where
  "errors_always i = Responded errors_response"

definition decode_nothing :: "json \<Rightarrow> exn + DeFiPosition list" where
  "decode_nothing d = Inr []"

definition keep_order :: "DeFiPosition list \<Rightarrow> DeFiPosition list" where
  "keep_order xs = xs"

definition no_parse :: "string \<Rightarrow> pyfloat option" where
  "no_parse s = None"

definition sample_position :: "string \<Rightarrow> pyfloat \<Rightarrow> DeFiPosition" where
  "sample_position mt b =
     \<lparr>app_name = ''Curve'', app_slug = ''curve'', network = ''Ethereum'', chain_id = 1,
      position_type = ''contract-position'', balance_usd = b,
      position_address = ''0x1220868672d5b10f3e1cb9ab519e4d0b08545ea4'', symbol = [],
      balance = Finite 0, underlying_tokens = [], display_label = ''lvlUSD/USDC'', meta_type = mt\<rparr>"

definition sample_summary :: summary where
  "sample_summary =
     \<lparr>addresses = wallet_addresses, chain_ids = None, total_value_usd = JFloat (Finite 47),
      position_count = 4\<rparr>"

definition zapper_response :: response where
  "zapper_response =
     \<lparr>status_code = 200, reason = ''OK'', resp_text = ''{...}'',
      body = Some (JObj [(''data'',
               JObj [(''portfolioV2'',
                 JObj [(''appBalances'',
                   JObj [(''totalBalanceUSD'', JFloat (Finite 47))])])])])\<rparr>"

definition zapper_ok :: outcomes where
  "zapper_ok i = Responded zapper_response"

definition morpho_ok :: outcomes where
  "morpho_ok i = Responded ok_response"

definition decode_sample :: "json \<Rightarrow> exn + DeFiPosition list" where
  "decode_sample d =
     Inr [sample_position ''CLAIMABLE'' (Finite 5), sample_position ''SUPPLIED'' (Finite 40),
          sample_position ''CLAIMABLE'' (Finite 2)]"

definition healthy_env :: env where
  "healthy_env =
     \<lparr>connections = [True, True, True],
      lvlUSD_call = Inr (10 ^ 24), slvlUSD_call = Inr (25 * 10 ^ 22),
      aEthUSDC_call = Inr (3 * 10 ^ 12), variableDebt_call = Inr (10 ^ 12),
      zapper_net = zapper_ok, morpho_net = morpho_ok,
      usdc_pool = GetBalances (Inr [2 * 10 ^ 6, 10 ^ 18]),
      slvlusd_pool = Balances (Inr (10 ^ 18)) (Inr (10 ^ 18)),
      slvlusd_pendle = Inr [],
      decode = decode_sample, nan_order = keep_order, parse_float = no_parse\<rparr>"

section \<open>Properties of the float model\<close>

lemma bitlen_rat_bounds:
  assumes "0 < a"
  shows "power_int (2::rat) (bitlen a - 1) \<le> of_int a"
    and "of_int a < power_int (2::rat) (bitlen a)"
proof -
  from assms have b1: "1 \<le> bitlen a" by (auto simp: bitlen_alt_def)
  from bitlen_bounds[OF assms]
  have lo: "2 ^ nat (bitlen a - 1) \<le> a" and hi: "a < 2 ^ nat (bitlen a)"
    by auto
  have "(of_int (2 ^ nat (bitlen a - 1)) :: rat) \<le> of_int a"
    using lo by (simp only: of_int_le_iff)
  then show "power_int (2::rat) (bitlen a - 1) \<le> of_int a"
    using b1 by (simp add: power_int_def)
  have "(of_int a :: rat) < of_int (2 ^ nat (bitlen a))"
    using hi by (simp only: of_int_less_iff)
  then show "of_int a < power_int (2::rat) (bitlen a)"
    using b1 by (simp add: power_int_def)
qed

lemma ilog2_bounds:
  assumes "0 < q"
  shows "power_int 2 (ilog2 q) \<le> q" and "q < power_int 2 (ilog2 q + 1)"
proof -
  obtain a b where ab: "quotient_of q = (a, b)" by (cases "quotient_of q")
  then have bpos: "0 < b" and q: "q = of_int a / of_int b"
    by (auto simp: quotient_of_denom_pos quotient_of_div)
  with assms have apos: "0 < a" by (simp add: zero_less_divide_iff)
  define e where "e = bitlen a - bitlen b"
  have il: "ilog2 q = (if q < power_int 2 e then e - 1 else e)"
    by (simp add: ilog2_def ab e_def Let_def)
  have bq: "(0::rat) < of_int b" using bpos by simp
  have up: "q < power_int 2 (e + 1)"
  proof -
    have "of_int a < power_int (2::rat) (bitlen a)" by (rule bitlen_rat_bounds[OF apos])
    also have "\<dots> = power_int 2 (e + 1) * power_int 2 (bitlen b - 1)"
      by (simp add: e_def flip: power_int_add)
    also have "\<dots> \<le> power_int 2 (e + 1) * of_int b"
      by (intro mult_left_mono bitlen_rat_bounds[OF bpos]) simp
    finally show ?thesis using bq by (simp add: q pos_divide_less_eq)
  qed
  have lo: "power_int 2 (e - 1) \<le> q"
  proof -
    have "power_int 2 (e - 1) * of_int b \<le> power_int (2::rat) (e - 1) * power_int 2 (bitlen b)"
      by (intro mult_left_mono less_imp_le[OF bitlen_rat_bounds(2)[OF bpos]]) simp
    also have "\<dots> = power_int 2 (bitlen a - 1)"
      by (simp add: e_def flip: power_int_add)
    also have "\<dots> \<le> of_int a" by (rule bitlen_rat_bounds[OF apos])
    finally show ?thesis using bq by (simp add: q pos_le_divide_eq)
  qed
  show "power_int 2 (ilog2 q) \<le> q" using lo by (simp add: il)
  show "q < power_int 2 (ilog2 q + 1)" using up by (simp add: il)
qed

lemma round_half_even_error: "\<bar>of_int (round_half_even x) - x\<bar> \<le> 1 / 2"
proof -
  have "of_int \<lfloor>x\<rfloor> \<le> x" "x < of_int \<lfloor>x\<rfloor> + 1" by linarith+
  then show ?thesis
    by (auto simp: round_half_even_def Let_def abs_le_iff)
qed

lemma round_half_even_of_int: "round_half_even (of_int k) = k"
  by (simp add: round_half_even_def)

lemma power_int_two_less_imp:
  assumes "power_int (2::rat) m < power_int 2 n"
  shows "m < n"
proof (rule ccontr)
  assume "\<not> m < n"
  then have "n \<le> m" by simp
  then have "power_int (2::rat) n \<le> power_int 2 m" by (intro power_int_increasing) simp_all
  with assms show False by simp
qed

lemma float_round_abs_error:
  assumes "q \<noteq> 0"
  shows "\<bar>float_round q - q\<bar> \<le> power_int 2 (max (ilog2 \<bar>q\<bar>) (- 1022) - 53)"
proof -
  define e where "e = max (ilog2 \<bar>q\<bar>) (- 1022)"
  define u :: rat where "u = power_int 2 (e - 52)"
  have upos: "0 < u" by (simp add: u_def)
  have fr: "float_round q = of_int (round_half_even (q / u)) * u"
    using assms by (simp add: float_round_def Let_def e_def u_def)
  have "\<bar>float_round q - q\<bar> = \<bar>of_int (round_half_even (q / u)) - q / u\<bar> * u"
  proof -
    have "float_round q - q = (of_int (round_half_even (q / u)) - q / u) * u"
      using upos by (simp add: fr left_diff_distrib)
    then show ?thesis using upos by (simp add: abs_mult)
  qed
  also have "\<dots> \<le> (1 / 2) * u"
    using upos by (intro mult_right_mono round_half_even_error) simp
  also have "\<dots> = power_int 2 (e - 53)"
  proof -
    have "power_int (2::rat) (e - 52) = power_int 2 (e - 53 + 1)" by simp
    also have "\<dots> = power_int 2 (e - 53) * 2" by (subst power_int_add) simp_all
    finally show ?thesis by (simp add: u_def)
  qed
  finally show ?thesis by (simp add: e_def)
qed

lemma float_round_rel_error:
  assumes "power_int 2 (- 1022) \<le> \<bar>q\<bar>"
  shows "\<bar>float_round q - q\<bar> \<le> \<bar>q\<bar> / 2 ^ 53"
proof -
  have q0: "q \<noteq> 0" using assms by auto
  then have qpos: "0 < \<bar>q\<bar>" by simp
  have "power_int (2::rat) (- 1022) < power_int 2 (ilog2 \<bar>q\<bar> + 1)"
    using assms ilog2_bounds(2)[OF qpos] by linarith
  then have "- 1022 < ilog2 \<bar>q\<bar> + 1"
    by (rule power_int_two_less_imp)
  then have e: "max (ilog2 \<bar>q\<bar>) (- 1022) = ilog2 \<bar>q\<bar>" by simp
  have "\<bar>float_round q - q\<bar> \<le> power_int 2 (ilog2 \<bar>q\<bar> - 53)"
    using float_round_abs_error[OF q0] by (simp add: e)
  also have "\<dots> = power_int 2 (ilog2 \<bar>q\<bar>) / 2 ^ 53"
    by (simp add: power_int_diff)
  also have "\<dots> \<le> \<bar>q\<bar> / 2 ^ 53"
    using ilog2_bounds(1)[OF qpos] by (simp add: divide_right_mono)
  finally show ?thesis .
qed

lemma float_round_exact:
  assumes m: "\<bar>m\<bar> < 2 ^ 53" and s: "- 1074 \<le> s"
  shows "float_round (of_int m * power_int 2 s) = of_int m * power_int 2 s"
proof (cases "m = 0")
  case True
  then show ?thesis by (simp add: float_round_def)
next
  case False
  define q :: rat where "q = of_int m * power_int 2 s"
  have q0: "q \<noteq> 0" using False by (simp add: q_def)
  then have qpos: "0 < \<bar>q\<bar>" by simp
  define e where "e = max (ilog2 \<bar>q\<bar>) (- 1022)"
  have "\<bar>q\<bar> = of_int \<bar>m\<bar> * power_int 2 s" by (simp add: q_def abs_mult)
  also have "\<dots> < 2 ^ 53 * power_int 2 s"
  proof -
    have "(of_int \<bar>m\<bar> :: rat) < of_int (2 ^ 53)" using m by (simp only: of_int_less_iff)
    then show ?thesis by (intro mult_strict_right_mono) simp_all
  qed
  also have "\<dots> = power_int 2 (53 + s)"
    by (subst power_int_add) simp_all
  finally have "power_int 2 (ilog2 \<bar>q\<bar>) < power_int (2::rat) (53 + s)"
    using ilog2_bounds(1)[OF qpos] by linarith
  then have "ilog2 \<bar>q\<bar> < 53 + s" by (rule power_int_two_less_imp)
  with s have es: "e - 52 \<le> s" by (simp add: e_def)
  define k where "k = nat (s - (e - 52))"
  have sk: "s = (e - 52) + int k" using es by (simp add: k_def)
  have "q / power_int 2 (e - 52) = of_int m * 2 ^ k"
    by (simp add: q_def sk power_int_add)
  also have "\<dots> = of_int (m * 2 ^ k)" by simp
  finally have "round_half_even (q / power_int 2 (e - 52)) = m * 2 ^ k"
    by (simp only: round_half_even_of_int)
  then have "float_round q = of_int (m * 2 ^ k) * power_int 2 (e - 52)"
    using q0 by (simp add: float_round_def Let_def e_def)
  also have "\<dots> = q"
    by (simp add: q_def sk power_int_add)
  finally show ?thesis by (simp add: q_def)
qed

lemma pow10_le_normal:
  assumes "d \<le> 255"
  shows "(10::rat) ^ d \<le> 2 ^ 1022"
proof -
  have "(10::rat) ^ d \<le> 10 ^ 255" using assms by (intro power_increasing) simp_all
  also have "\<dots> \<le> 2 ^ 1022" by simp
  finally show ?thesis .
qed

lemma on_chain_scale_nearest:
  assumes v0: "0 \<le> v" and v: "v < 2 ^ 256" and d: "d \<le> 255"
  defines "q \<equiv> (of_int v :: rat) / 10 ^ d"
  shows "on_chain_scale v d = Inr (Finite (float_round q))"
    and "\<bar>float_round q - q\<bar> \<le> q / 2 ^ 53"
    and "0 < v \<Longrightarrow> 0 < float_round q"
proof -
  have q0: "0 \<le> q" using v0 by (simp add: q_def)
  have qv: "q \<le> of_int v"
  proof -
    have "(of_int v :: rat) / 10 ^ d \<le> of_int v / 1"
      using v0 by (intro divide_left_mono) simp_all
    then show ?thesis by (simp add: q_def)
  qed
  have "(of_int v :: rat) < of_int (2 ^ 256)" using v by (simp only: of_int_less_iff)
  then have vb: "(of_int v :: rat) < 2 ^ 256" by simp
  show err: "\<bar>float_round q - q\<bar> \<le> q / 2 ^ 53"
  proof (cases "v = 0")
    case True
    then show ?thesis by (simp add: q_def float_round_def)
  next
    case False
    with v0 have "1 \<le> v" by simp
    then have "(of_int 1 :: rat) \<le> of_int v" by (simp only: of_int_le_iff)
    then have "(1::rat) \<le> of_int v" by simp
    then have c: "1 / 10 ^ d \<le> q" by (simp add: q_def divide_right_mono)
    have b: "(1::rat) / 2 ^ 1022 \<le> 1 / 10 ^ d"
      by (rule divide_left_mono[OF pow10_le_normal[OF d]]) simp_all
    have a: "power_int (2::rat) (- 1022) = 1 / 2 ^ 1022"
      by (simp add: power_int_minus_divide)
    from b c have "(1::rat) / 2 ^ 1022 \<le> q" by (rule order_trans)
    then have "power_int 2 (- 1022) \<le> q" by (simp only: a)
    then have "power_int 2 (- 1022) \<le> \<bar>q\<bar>" using q0 by (simp only: abs_of_nonneg)
    from float_round_rel_error[OF this] q0 show ?thesis by (simp only: abs_of_nonneg)
  qed
  have "float_round q - q \<le> q / 2 ^ 53" using err by (rule abs_le_D1)
  then have "float_round q \<le> q + q / 2 ^ 53" by linarith
  also have "\<dots> \<le> q + q" using q0 by (simp add: field_simps)
  also have "\<dots> < 2 ^ 256 + 2 ^ 256" using qv vb by linarith
  finally have hi: "float_round q < 2 ^ 1024" by simp
  have "- (float_round q - q) \<le> q / 2 ^ 53" using err by (rule abs_le_D2)
  then have below: "q - q / 2 ^ 53 \<le> float_round q" by linarith
  moreover have "0 \<le> q - q / 2 ^ 53" using q0 by (simp add: field_simps)
  ultimately have lo: "0 \<le> float_round q" by linarith
  from hi lo have "\<not> 2 ^ 1024 \<le> \<bar>float_round q\<bar>" by simp
  then show "on_chain_scale v d = Inr (Finite (float_round q))"
    by (simp add: on_chain_scale_def int_truediv_def Let_def q_def)
  show "0 < float_round q" if "0 < v"
  proof -
    from that have "0 < q" by (simp add: q_def)
    then have "0 < q - q / 2 ^ 53" by (simp add: field_simps)
    with below show ?thesis by linarith
  qed
qed

lemma float_round_of_int:
  assumes "\<bar>k\<bar> < 2 ^ 53"
  shows "float_round (of_int k) = of_int k"
  using float_round_exact[OF assms, of 0] by simp

lemma float_round_numeral:
  assumes "(numeral n :: int) < 2 ^ 53"
  shows "float_round (numeral n) = numeral n"
proof -
  have "\<bar>numeral n :: int\<bar> < 2 ^ 53" using assms by simp
  from float_round_of_int[OF this] show ?thesis by simp
qed

lemma float_round_zero: "float_round 0 = 0"
  by (simp add: float_round_def)

lemma float_round_quarter: "float_round (1 / 4) = 1 / 4"
  using float_round_exact[of 1 "- 2"] by (simp add: power_int_minus_divide)


lemma get_supply_info_example: "get_supply_info (Inr (10 ^ 24)) (Inr (25 * 10 ^ 22))
     = Inr \<lparr>lvlUSD_supply = Finite 1000000, slvlUSD_supply = Finite 250000, percentage = Finite 25\<rparr>"
  by (simp add: get_supply_info_def on_chain_scale_def int_truediv_def float_round_numeral
      float_round_quarter to_float_def float_100_def)


section \<open>Decimal scaling of on-chain values\<close>




section \<open>The supply percentage\<close>

lemma on_chain_scale_zero: "on_chain_scale 0 d = Inr (Finite 0)"
  by (simp add: on_chain_scale_def int_truediv_def float_round_zero)

lemma on_chain_scale_uint256:
  assumes "0 \<le> v" and "v < 2 ^ 256"
  shows "\<exists>x. on_chain_scale v 18 = Inr (Finite x) \<and> (x = 0 \<longleftrightarrow> v = 0)"
proof (cases "v = 0")
  case True
  then show ?thesis by (simp add: on_chain_scale_zero)
next
  case False
  with assms have "0 < v" by simp
  from on_chain_scale_nearest(1)[OF assms, of 18] on_chain_scale_nearest(3)[OF assms _ this, of 18]
  show ?thesis using False by auto
qed

lemma float_truediv_total:
  assumes "y \<noteq> Finite 0"
  shows "\<exists>r. float_truediv x y = Inr r"
  using assms by (cases "(x, y)" rule: float_truediv.cases) auto

lemma get_supply_info_Inr_iff:
  assumes "get_supply_info lc sc = Inr r"
  shows "\<exists>lv sv. lc = Inr lv \<and> sc = Inr sv \<and> lv \<noteq> 0"
proof -
  from assms obtain lv where lc: "lc = Inr lv"
    by (cases lc) (simp_all add: get_supply_info_def)
  have "lv \<noteq> 0"
  proof
    assume "lv = 0"
    then have "get_supply_info lc sc \<noteq> Inr r"
      by (simp add: get_supply_info_def lc on_chain_scale_zero split: sum.splits)
    with assms show False by simp
  qed
  moreover from assms lc obtain sv where "sc = Inr sv"
    by (cases sc) (simp_all add: get_supply_info_def split: sum.splits)
  ultimately show ?thesis using lc by blast
qed

text \<open>
  Claim C2, as amended.  \<^verbatim>\<open>get_supply_info\<close> returns a percentage only when both supplies
  were read and the lvlUSD supply is not zero, and for \<^verbatim>\<open>uint256\<close> reads with a non-zero
  lvlUSD supply it always returns one.  When a supply read fails, the exception of that
  read leaves \<^verbatim>\<open>get_supply_info\<close>: nothing is marked absent, and no default value is
  reported in place of the percentage.
\<close>

theorem supply_percentage_only_when_defined:
  "(get_supply_info lc sc = Inr r \<longrightarrow> (\<exists>lv sv. lc = Inr lv \<and> sc = Inr sv \<and> lv \<noteq> 0))
   \<and> (lc = Inl e \<longrightarrow> get_supply_info lc sc = Inl e)
   \<and> (lc = Inr lv \<and> 0 \<le> lv \<and> lv < 2 ^ 256 \<and> sc = Inl e \<longrightarrow> get_supply_info lc sc = Inl e)
   \<and> (lc = Inr lv \<and> 0 < lv \<and> lv < 2 ^ 256 \<and> sc = Inr sv \<and> 0 \<le> sv \<and> sv < 2 ^ 256
        \<longrightarrow> (\<exists>r'. get_supply_info lc sc = Inr r'))"
proof (intro conjI impI)
  assume "get_supply_info lc sc = Inr r"
  then show "\<exists>lv sv. lc = Inr lv \<and> sc = Inr sv \<and> lv \<noteq> 0" by (rule get_supply_info_Inr_iff)
next
  assume "lc = Inl e"
  then show "get_supply_info lc sc = Inl e" by (simp add: get_supply_info_def)
next
  assume a: "lc = Inr lv \<and> 0 \<le> lv \<and> lv < 2 ^ 256 \<and> sc = Inl e"
  then obtain x where "on_chain_scale lv 18 = Inr (Finite x)"
    using on_chain_scale_uint256[of lv] by blast
  with a show "get_supply_info lc sc = Inl e" by (simp add: get_supply_info_def)
next
  assume a: "lc = Inr lv \<and> 0 < lv \<and> lv < 2 ^ 256 \<and> sc = Inr sv \<and> 0 \<le> sv \<and> sv < 2 ^ 256"
  then obtain x where x: "on_chain_scale lv 18 = Inr (Finite x)" "x \<noteq> 0"
    using on_chain_scale_uint256[of lv] by auto
  from a obtain y where y: "on_chain_scale sv 18 = Inr (Finite y)"
    using on_chain_scale_uint256[of sv] by blast
  from x(2) obtain ratio where "float_truediv (Finite y) (Finite x) = Inr ratio"
    using float_truediv_total[of "Finite x" "Finite y"] by auto
  with a x y show "\<exists>r'. get_supply_info lc sc = Inr r'"
    by (simp add: get_supply_info_def)
qed

theorem supply_percentage_only_when_defined_witness:
  "get_supply_info (Inl (ContractCallError ''execution reverted'')) (Inr (25 * 10 ^ 22))
       = Inl (ContractCallError ''execution reverted'')
   \<and> get_supply_info (Inr (10 ^ 24)) (Inl (ContractCallError ''execution reverted''))
       = Inl (ContractCallError ''execution reverted'')
   \<and> (\<exists>r'. get_supply_info (Inr (10 ^ 24)) (Inr (25 * 10 ^ 22)) = Inr r')
   \<and> get_supply_info (Inr (10 ^ 24)) (Inr (25 * 10 ^ 22))
        = Inr \<lparr>lvlUSD_supply = Finite 1000000, slvlUSD_supply = Finite 250000,
               percentage = Finite 25\<rparr>
   \<and> (\<exists>lv sv. (Inr (10 ^ 24) :: call_outcome) = Inr lv
          \<and> (Inr (25 * 10 ^ 22) :: call_outcome) = Inr sv \<and> lv \<noteq> 0)"
  using supply_percentage_only_when_defined[of "Inl (ContractCallError ''execution reverted'')"
      "Inr (25 * 10 ^ 22)" _ "ContractCallError ''execution reverted''"]
    supply_percentage_only_when_defined[of "Inr (10 ^ 24)"
      "Inl (ContractCallError ''execution reverted'')" _ "ContractCallError ''execution reverted''" "10 ^ 24"]
    supply_percentage_only_when_defined[of "Inr (10 ^ 24)" "Inr (25 * 10 ^ 22)"
      "\<lparr>lvlUSD_supply = Finite 1000000, slvlUSD_supply = Finite 250000, percentage = Finite 25\<rparr>"
      _ "10 ^ 24" "25 * 10 ^ 22"]
    get_supply_info_example
  by simp

text \<open>
  Claim C2 as stated fails: with a lvlUSD supply of zero the division is made and raises
  \<^verbatim>\<open>ZeroDivisionError\<close>, and with a failed slvlUSD read the exception of the read is raised;
  in neither case is a result with an absent percentage returned.
\<close>

theorem supply_percentage_zero_counterexample:
  "get_supply_info (Inr 0) (Inr (5 * 10 ^ 18)) = Inl ZeroDivisionError
   \<and> get_supply_info (Inr (10 ^ 24)) (Inl (ContractCallError ''execution reverted''))
       = Inl (ContractCallError ''execution reverted'')"
  by (simp add: get_supply_info_def on_chain_scale_def int_truediv_def float_round_numeral
      float_round_zero)

lemma float_round_normal:
  assumes "power_int 2 (- 1022) \<le> q"
  shows "q * (1 - 1 / 2 ^ 53) \<le> float_round q" and "float_round q \<le> q * (1 + 1 / 2 ^ 53)"
proof -
  have "(0::rat) < power_int 2 (- 1022)" by simp
  with assms have q0: "0 < q" by linarith
  then have "power_int 2 (- 1022) \<le> \<bar>q\<bar>" using assms by simp
  from float_round_rel_error[OF this] q0 have e: "\<bar>float_round q - q\<bar> \<le> q / 2 ^ 53"
    by simp
  from e have "float_round q - q \<le> q / 2 ^ 53" by (rule abs_le_D1)
  then show "float_round q \<le> q * (1 + 1 / 2 ^ 53)" by (simp add: algebra_simps)
  from e have "- (float_round q - q) \<le> q / 2 ^ 53" by (rule abs_le_D2)
  then show "q * (1 - 1 / 2 ^ 53) \<le> float_round q" by (simp add: algebra_simps)
qed

lemma to_float_finite:
  assumes "- (2 ^ 1024) < float_round q" and "float_round q < 2 ^ 1024"
  shows "to_float q = Finite (float_round q)"
  using assms by (simp add: to_float_def Let_def)


lemma rel_error_chain:
  fixes s l s' l' t r p :: rat
  assumes a: "a = 1 + 1 / 2 ^ 53" and b: "b = 1 - 1 / 2 ^ 53"
    and l: "0 < l" and s: "0 \<le> s"
    and l': "l * b \<le> l'" "l' \<le> l * a"
    and s': "s * b \<le> s'" "s' \<le> s * a"
    and r: "(s' / l') * b \<le> r" "r \<le> (s' / l') * a"
    and p: "(r * 100) * b \<le> p" "p \<le> (r * 100) * a"
  shows "\<bar>p - 100 * (s / l)\<bar> \<le> 100 * (s / l) / 2 ^ 50"
proof -
  have a0: "0 < a" and b0: "0 < b" by (simp_all add: a b)
  have lb: "0 < l * b" and la: "0 < l * a" using l a0 b0 by simp_all
  have l'0: "0 < l'" using lb l'(1) by linarith
  have s'0: "0 \<le> s'"
  proof -
    have "0 \<le> s * b" using s b0 by simp
    with s'(1) show ?thesis by linarith
  qed
  have x0: "0 \<le> s / l" using s l by simp
  have num_up: "a * a * a / b \<le> 1 + 1 / 2 ^ 50" by (simp add: a b)
  have num_lo: "1 - 1 / 2 ^ 50 \<le> b * b * b / a" by (simp add: a b)
  have t_up: "s' / l' \<le> (s * a) / (l * b)"
  proof (rule frac_le)
    show "0 \<le> s * a" using s a0 by simp
    show "s' \<le> s * a" by (rule s'(2))
    show "0 < l * b" by (rule lb)
    show "l * b \<le> l'" by (rule l'(1))
  qed
  have t_lo: "(s * b) / (l * a) \<le> s' / l'"
  proof (rule frac_le)
    show "0 \<le> s'" by (rule s'0)
    show "s * b \<le> s'" by (rule s'(1))
    show "0 < l'" by (rule l'0)
    show "l' \<le> l * a" by (rule l'(2))
  qed
  have t0: "0 \<le> s' / l'" using s'0 l'0 by simp
  have r0: "0 \<le> r"
  proof -
    have "0 \<le> (s' / l') * b" using t0 b0 by (intro mult_nonneg_nonneg) simp_all
    with r(1) show ?thesis by linarith
  qed
  have "p \<le> (r * 100) * a" by (rule p(2))
  also have "\<dots> \<le> (((s' / l') * a) * 100) * a"
    using r(2) a0 by (intro mult_right_mono) simp_all
  also have "\<dots> \<le> ((((s * a) / (l * b)) * a) * 100) * a"
    using t_up a0 by (intro mult_right_mono) simp_all
  also have "\<dots> = (100 * (s / l)) * (a * a * a / b)"
    using l b0 by (simp add: field_simps)
  also have "\<dots> \<le> (100 * (s / l)) * (1 + 1 / 2 ^ 50)"
    using x0 num_up by (intro mult_left_mono) simp_all
  finally have up: "p \<le> (100 * (s / l)) * (1 + 1 / 2 ^ 50)" .
  have "(100 * (s / l)) * (1 - 1 / 2 ^ 50) \<le> (100 * (s / l)) * (b * b * b / a)"
    using x0 num_lo by (intro mult_left_mono) simp_all
  also have "\<dots> = ((((s * b) / (l * a)) * b) * 100) * b"
    using l a0 by (simp add: field_simps)
  also have "\<dots> \<le> (((s' / l') * b) * 100) * b"
    using t_lo b0 by (intro mult_right_mono) simp_all
  also have "\<dots> \<le> (r * 100) * b"
    using r(1) b0 by (intro mult_right_mono) simp_all
  also have "\<dots> \<le> p" by (rule p(1))
  finally have lo: "(100 * (s / l)) * (1 - 1 / 2 ^ 50) \<le> p" .
  define x where "x = 100 * (s / l)"
  from up have "p - x \<le> x / 2 ^ 50" by (simp add: x_def algebra_simps)
  moreover from lo have "- (p - x) \<le> x / 2 ^ 50" by (simp add: x_def algebra_simps)
  ultimately have "\<bar>p - x\<bar> \<le> x / 2 ^ 50" by (rule abs_leI)
  then show ?thesis by (simp add: x_def)
qed

lemma scaled_read_bounds:
  assumes v: "0 < v" "v < 2 ^ 256"
  defines "q \<equiv> (of_int v :: rat) / 10 ^ 18"
  shows "on_chain_scale v 18 = Inr (Finite (float_round q))"
    and "q * (1 - 1 / 2 ^ 53) \<le> float_round q"
    and "float_round q \<le> q * (1 + 1 / 2 ^ 53)"
    and "1 / (2 * 10 ^ 18) \<le> float_round q"
    and "float_round q \<le> 2 ^ 257"
    and "0 < q"
proof -
  have v0: "0 \<le> v" using v by simp
  show sc: "on_chain_scale v 18 = Inr (Finite (float_round q))"
    unfolding q_def by (rule on_chain_scale_nearest(1)[OF v0 v(2)]) simp
  have e: "\<bar>float_round q - q\<bar> \<le> q / 2 ^ 53"
    unfolding q_def by (rule on_chain_scale_nearest(2)[OF v0 v(2)]) simp
  from e have "float_round q - q \<le> q / 2 ^ 53" by (rule abs_le_D1)
  then show up: "float_round q \<le> q * (1 + 1 / 2 ^ 53)" by (simp add: algebra_simps)
  from e have "- (float_round q - q) \<le> q / 2 ^ 53" by (rule abs_le_D2)
  then show lo: "q * (1 - 1 / 2 ^ 53) \<le> float_round q" by (simp add: algebra_simps)
  have "1 \<le> v" using v by simp
  then have "(of_int 1 :: rat) \<le> of_int v" by (simp only: of_int_le_iff)
  then have q1: "1 / 10 ^ 18 \<le> q" by (simp add: q_def)
  then show q0: "0 < q" by simp
  have "(of_int v :: rat) < of_int (2 ^ 256)" using v(2) by (simp only: of_int_less_iff)
  then have q2: "q \<le> 2 ^ 256" by (simp add: q_def)
  have "1 / (2 * 10 ^ 18) = (1 / 10 ^ 18) * (1 / 2 :: rat)" by simp
  also have "\<dots> \<le> q * (1 - 1 / 2 ^ 53)"
    using q1 by (intro mult_mono) simp_all
  finally show "1 / (2 * 10 ^ 18) \<le> float_round q" using lo by linarith
  have "q * (1 + 1 / 2 ^ 53) \<le> 2 ^ 256 * (2 :: rat)"
    using q2 q0 by (intro mult_mono) simp_all
  with up show "float_round q \<le> 2 ^ 257" by simp
qed


lemma to_float_zero: "to_float 0 = Finite 0"
  by (simp add: to_float_def float_round_zero)

lemma percentage_accuracy:
  assumes lv: "0 < lv" "lv < 2 ^ 256" and sv: "0 \<le> sv" "sv < 2 ^ 256"
  shows "\<exists>r p. get_supply_info (Inr lv) (Inr sv) = Inr r \<and> percentage r = Finite p
           \<and> \<bar>p - 100 * (of_int sv / of_int lv)\<bar> \<le> 100 * (of_int sv / of_int lv) / 2 ^ 50"
proof -
  define l :: rat where "l = of_int lv / 10 ^ 18"
  define l' where "l' = float_round l"
  note L = scaled_read_bounds[OF lv, folded l_def l'_def]
  have l'0: "l' \<noteq> 0" using L(4) by auto
  show ?thesis
  proof (cases "sv = 0")
    case True
    have "get_supply_info (Inr lv) (Inr sv)
        = Inr \<lparr>lvlUSD_supply = Finite l', slvlUSD_supply = Finite 0, percentage = Finite 0\<rparr>"
      using l'0 by (simp add: get_supply_info_def L(1) True on_chain_scale_zero to_float_zero
          float_100_def)
    then show ?thesis using True by simp
  next
    case False
    with sv have sv': "0 < sv" by simp
    define s :: rat where "s = of_int sv / 10 ^ 18"
    define s' where "s' = float_round s"
    note S = scaled_read_bounds[OF sv' sv(2), folded s_def s'_def]
    define a :: rat where "a = 1 + 1 / 2 ^ 53"
    define b :: rat where "b = 1 - 1 / 2 ^ 53"
    define t where "t = s' / l'"
    define r1 where "r1 = float_round t"
    define p where "p = float_round (r1 * 100)"
    have l'pos: "0 < l'" and s'pos: "0 < s'" using L(4) S(4) by auto
    have t_lo: "1 / (2 * 10 ^ 18) / 2 ^ 257 \<le> t"
      unfolding t_def using s'pos S(4) l'pos L(5) by (intro frac_le) simp_all
    have t_hi: "t \<le> 2 ^ 257 / (1 / (2 * 10 ^ 18))"
      unfolding t_def using S(5) L(4) by (intro frac_le) simp_all
    have t_norm: "power_int 2 (- 1022) \<le> t"
    proof -
      have "power_int (2::rat) (- 1022) \<le> 1 / (2 * 10 ^ 18) / 2 ^ 257"
        by (simp add: power_int_minus_divide)
      from this t_lo show ?thesis by (rule order_trans)
    qed
    have t0: "0 < t" using s'pos l'pos by (simp add: t_def)
    have r1_lo: "t * b \<le> r1" and r1_hi: "r1 \<le> t * a"
      unfolding r1_def a_def b_def by (rule float_round_normal[OF t_norm])+
    have r1_ge: "1 / (2 * 10 ^ 18) / 2 ^ 257 * (1 / 2) \<le> r1"
    proof -
      have "1 / (2 * 10 ^ 18) / 2 ^ 257 * (1 / 2) \<le> t * b"
        using t_lo by (intro mult_mono) (simp_all add: b_def)
      with r1_lo show ?thesis by linarith
    qed
    have r1_le: "r1 \<le> 2 ^ 257 / (1 / (2 * 10 ^ 18)) * 2"
    proof -
      have "t * a \<le> 2 ^ 257 / (1 / (2 * 10 ^ 18)) * 2"
        using t_hi t0 by (intro mult_mono) (simp_all add: a_def)
      with r1_hi show ?thesis by linarith
    qed
    have r1_fin: "to_float t = Finite r1"
      unfolding r1_def
    proof (rule to_float_finite)
      show "- (2 ^ 1024) < float_round t" using r1_ge by (simp add: r1_def)
      show "float_round t < 2 ^ 1024" using r1_le by (simp add: r1_def)
    qed
    have m_norm: "power_int 2 (- 1022) \<le> r1 * 100"
    proof -
      have "power_int (2::rat) (- 1022) \<le> 1 / (2 * 10 ^ 18) / 2 ^ 257 * (1 / 2) * 100"
        by (simp add: power_int_minus_divide)
      also have "\<dots> \<le> r1 * 100" using r1_ge by simp
      finally show ?thesis .
    qed
    have p_lo: "(r1 * 100) * b \<le> p" and p_hi: "p \<le> (r1 * 100) * a"
      unfolding p_def a_def b_def by (rule float_round_normal[OF m_norm])+
    have p_fin: "to_float (r1 * 100) = Finite p"
      unfolding p_def
    proof (rule to_float_finite)
      have r10: "0 \<le> r1" using r1_ge by simp
      have "0 \<le> (r1 * 100) * b" using r10 by (intro mult_nonneg_nonneg) (simp_all add: b_def)
      with p_lo have "0 \<le> p" by linarith
      then show "- (2 ^ 1024) < float_round (r1 * 100)" by (simp add: p_def)
      have "(r1 * 100) * a \<le> (2 ^ 257 / (1 / (2 * 10 ^ 18)) * 2 * 100) * 2"
        using r1_le r10 by (intro mult_mono) (simp_all add: a_def)
      with p_hi have "p \<le> (2 ^ 257 / (1 / (2 * 10 ^ 18)) * 2 * 100) * 2" by linarith
      then show "float_round (r1 * 100) < 2 ^ 1024" by (simp add: p_def)
    qed
    have res: "get_supply_info (Inr lv) (Inr sv)
        = Inr \<lparr>lvlUSD_supply = Finite l', slvlUSD_supply = Finite s', percentage = Finite p\<rparr>"
      using l'0 r1_fin p_fin
      by (simp add: get_supply_info_def L(1) S(1) float_100_def t_def)
    have "\<bar>p - 100 * (s / l)\<bar> \<le> 100 * (s / l) / 2 ^ 50"
    proof (rule rel_error_chain[OF a_def b_def])
      show "0 < l" by (rule L(6))
      show "0 \<le> s" using S(6) by simp
      show "l * b \<le> l'" "l' \<le> l * a" using L(2,3) by (simp_all add: a_def b_def)
      show "s * b \<le> s'" "s' \<le> s * a" using S(2,3) by (simp_all add: a_def b_def)
      show "s' / l' * b \<le> r1" "r1 \<le> s' / l' * a" using r1_lo r1_hi by (simp_all add: t_def)
      show "r1 * 100 * b \<le> p" "p \<le> r1 * 100 * a" by (rule p_lo, rule p_hi)
    qed
    moreover have "s / l = of_int sv / of_int lv"
      by (simp add: s_def l_def)
    ultimately show ?thesis using res by simp
  qed
qed

lemma get_supply_info_fields:
  assumes "get_supply_info lc sc = Inr r"
  shows "\<exists>ratio. float_truediv (slvlUSD_supply r) (lvlUSD_supply r) = Inr ratio
           \<and> percentage r = float_mul ratio float_100"
  using assms by (auto simp: get_supply_info_def split: sum.splits)

text \<open>
  Claim C7.  For \<^verbatim>\<open>uint256\<close> reads with a non-zero lvlUSD supply, the percentage returned is
  the reported slvlUSD supply divided by the reported lvlUSD supply, times 100, in float
  arithmetic, and lies within the fraction \<open>2 ^ -50\<close> of the exact value
  \<open>100 * slvlUSD / lvlUSD\<close>.  For a lvlUSD supply of 1,000,000 and a slvlUSD supply of 250,000
  (18 decimals each) it is exactly 25.
\<close>

theorem percentage_is_ratio_times_100:
  "(0 < lv \<and> lv < 2 ^ 256 \<and> 0 \<le> sv \<and> sv < 2 ^ 256 \<longrightarrow>
      (\<exists>r ratio p. get_supply_info (Inr lv) (Inr sv) = Inr r
          \<and> float_truediv (slvlUSD_supply r) (lvlUSD_supply r) = Inr ratio
          \<and> percentage r = float_mul ratio float_100
          \<and> percentage r = Finite p
          \<and> \<bar>p - 100 * (of_int sv / of_int lv)\<bar> \<le> 100 * (of_int sv / of_int lv) / 2 ^ 50))
   \<and> get_supply_info (Inr (10 ^ 24)) (Inr (25 * 10 ^ 22))
       = Inr \<lparr>lvlUSD_supply = Finite 1000000, slvlUSD_supply = Finite 250000,
              percentage = Finite 25\<rparr>"
proof (intro conjI impI)
  assume h: "0 < lv \<and> lv < 2 ^ 256 \<and> 0 \<le> sv \<and> sv < 2 ^ 256"
  then obtain r p where r: "get_supply_info (Inr lv) (Inr sv) = Inr r"
    and p: "percentage r = Finite p"
      "\<bar>p - 100 * (of_int sv / of_int lv)\<bar> \<le> 100 * (of_int sv / of_int lv) / 2 ^ 50"
    using percentage_accuracy[of lv sv] by blast
  from get_supply_info_fields[OF r] obtain ratio
    where "float_truediv (slvlUSD_supply r) (lvlUSD_supply r) = Inr ratio"
      and "percentage r = float_mul ratio float_100" by blast
  with r p show "\<exists>r ratio p. get_supply_info (Inr lv) (Inr sv) = Inr r
          \<and> float_truediv (slvlUSD_supply r) (lvlUSD_supply r) = Inr ratio
          \<and> percentage r = float_mul ratio float_100
          \<and> percentage r = Finite p
          \<and> \<bar>p - 100 * (of_int sv / of_int lv)\<bar> \<le> 100 * (of_int sv / of_int lv) / 2 ^ 50"
    by blast
next
  show "get_supply_info (Inr (10 ^ 24)) (Inr (25 * 10 ^ 22))
       = Inr \<lparr>lvlUSD_supply = Finite 1000000, slvlUSD_supply = Finite 250000,
              percentage = Finite 25\<rparr>"
    by (rule get_supply_info_example)
qed

theorem percentage_is_ratio_times_100_witness:
  "(0::int) < 10 ^ 24 \<and> (10 ^ 24 :: int) < 2 ^ 256 \<and> (0::int) \<le> 25 * 10 ^ 22
     \<and> (25 * 10 ^ 22 :: int) < 2 ^ 256
     \<and> (\<exists>r p. get_supply_info (Inr (10 ^ 24)) (Inr (25 * 10 ^ 22)) = Inr r
           \<and> percentage r = Finite p \<and> \<bar>p - 25\<bar> \<le> 25 / 2 ^ 50)"
proof -
  have h: "(0::int) < 10 ^ 24 \<and> (10 ^ 24 :: int) < 2 ^ 256 \<and> (0::int) \<le> 25 * 10 ^ 22
     \<and> (25 * 10 ^ 22 :: int) < 2 ^ 256" by simp
  from percentage_is_ratio_times_100[of "10 ^ 24" "25 * 10 ^ 22"] h
  obtain r p where "get_supply_info (Inr (10 ^ 24)) (Inr (25 * 10 ^ 22)) = Inr r"
    and "percentage r = Finite p"
    and "\<bar>p - 100 * (of_int (25 * 10 ^ 22) / of_int (10 ^ 24))\<bar>
           \<le> 100 * (of_int (25 * 10 ^ 22) / of_int (10 ^ 24)) / 2 ^ 50"
    by blast
  moreover have "100 * (of_int (25 * 10 ^ 22) / of_int (10 ^ 24)) = (25 :: rat)" by simp
  ultimately have "\<exists>r p. get_supply_info (Inr (10 ^ 24)) (Inr (25 * 10 ^ 22)) = Inr r
           \<and> percentage r = Finite p \<and> \<bar>p - 25\<bar> \<le> 25 / 2 ^ 50"
    by (metis (no_types))
  with h show ?thesis by blast
qed

section \<open>Failures of the fetches\<close>

lemma report_markets_Cons:
  "report_markets parse net n (market # markets)
     = (report_market parse (fst market) (morpho_result (net n))
          @ fst (report_markets parse net (Suc n) markets),
        snd (report_markets parse net (Suc n) markets))"
  by (simp add: get_market_by_id_def execute_query_def split: prod.splits)

lemma report_markets_requests:
  "snd (report_markets parse net n markets) = n + length markets"
proof (induction markets arbitrary: n)
  case Nil
  then show ?case by simp
next
  case (Cons market markets)
  show ?case by (simp only: report_markets_Cons snd_conv Cons.IH) simp
qed

lemma report_markets_lines:
  "fst (report_markets parse net n markets)
     = concat (map (\<lambda>i. report_market parse (fst (markets ! i)) (morpho_result (net (n + i))))
                 [0..<length markets])"
proof (induction markets arbitrary: n)
  case Nil
  then show ?case by simp
next
  case (Cons market markets)
  show ?case
    by (simp only: report_markets_Cons fst_conv Cons.IH length_Cons map_upt_Suc)
       simp
qed

lemma get_collateral_composition_test_fails:
  assumes "\<not> fst (test_api_connection net n)"
  shows "get_collateral_composition dec srt net n = (None, Suc n)"
  using assms by (simp add: get_collateral_composition_def test_api_connection_def split: prod.splits)

lemma test_api_connection_count: "snd (test_api_connection net n) = Suc n"
  by (simp add: test_api_connection_def)

lemma get_defi_positions_eq:
  "get_defi_positions dec net n
     = (case zapper_result (net n) of Inl e \<Rightarrow> Inl e | Inr d \<Rightarrow> dec d, Suc n)"
  by (simp add: get_defi_positions_def fetch_defi_positions_def)

lemma get_collateral_composition_first_fetch_fails:
  assumes "fst (test_api_connection net n)" and "zapper_result (net (Suc n)) = Inl e"
  shows "get_collateral_composition dec srt net n = (None, Suc (Suc n))"
proof -
  have t: "test_api_connection net n = (True, Suc n)"
    using assms(1) test_api_connection_count[of net n] by (cases "test_api_connection net n") simp
  show ?thesis
    by (simp add: get_collateral_composition_def t get_defi_positions_eq assms(2))
qed

text \<open>
  Claim C3, as amended.  A timeout or a connection error does leave the fetch as a raised
  exception: \<^verbatim>\<open>fetch_defi_positions\<close> raises an \<^verbatim>\<open>Exception\<close> that wraps it, and
  \<^verbatim>\<open>_execute_query\<close> lets the exception of \<^verbatim>\<open>requests\<close> through.  It is the callers that stop it:
  the loop over the markets prints an error line for the market and goes on, and
  \<^verbatim>\<open>get_collateral_composition\<close> returns \<^verbatim>\<open>None\<close>.
\<close>

theorem transport_errors_are_raised:
  "(net n = Raised t \<longrightarrow>
      fetch_defi_positions net n = (Inl (Exception_RequestFailed (RequestException t)), Suc n)
      \<and> execute_query net n = (Inl (RequestException t), Suc n)
      \<and> report_markets parse net n [market]
          = ([ErrorFetching (fst market) (RequestException t)], Suc n)
      \<and> get_collateral_composition dec srt net n = (None, Suc n))
   \<and> (fst (test_api_connection net n) \<and> net (Suc n) = Raised t \<longrightarrow>
        get_collateral_composition dec srt net n = (None, Suc (Suc n)))"
proof (intro conjI impI)
  assume r: "net n = Raised t"
  show "fetch_defi_positions net n = (Inl (Exception_RequestFailed (RequestException t)), Suc n)"
    by (simp add: fetch_defi_positions_def zapper_result_def r)
  show "execute_query net n = (Inl (RequestException t), Suc n)"
    by (simp add: execute_query_def morpho_result_def r)
  show "report_markets parse net n [market]
          = ([ErrorFetching (fst market) (RequestException t)], Suc n)"
    by (simp add: report_markets_Cons morpho_result_def r report_market_def
        del: report_markets.simps(2))
  show "get_collateral_composition dec srt net n = (None, Suc n)"
    by (rule get_collateral_composition_test_fails) (simp add: test_api_connection_def r)
next
  assume h: "fst (test_api_connection net n) \<and> net (Suc n) = Raised t"
  then have "zapper_result (net (Suc n)) = Inl (Exception_RequestFailed (RequestException t))"
    by (simp add: zapper_result_def)
  with h show "get_collateral_composition dec srt net n = (None, Suc (Suc n))"
    by (intro get_collateral_composition_first_fetch_fails) simp_all
qed

lemma test_api_connection_ok_then_timeout: "fst (test_api_connection ok_then_timeout 0)"
  by (simp add: test_api_connection_def ok_then_timeout_def ok_response_def)

theorem transport_errors_are_raised_witness:
  "timeout_then_ok 0 = Raised Timeout
   \<and> fetch_defi_positions timeout_then_ok 0
       = (Inl (Exception_RequestFailed (RequestException Timeout)), Suc 0)
   \<and> execute_query timeout_then_ok 0 = (Inl (RequestException Timeout), Suc 0)
   \<and> report_markets no_parse timeout_then_ok 0 [(''WBTC/USDC'', ''0x3a85'')]
       = ([ErrorFetching ''WBTC/USDC'' (RequestException Timeout)], Suc 0)
   \<and> get_collateral_composition decode_nothing keep_order timeout_then_ok 0 = (None, Suc 0)
   \<and> fst (test_api_connection ok_then_timeout 0)
   \<and> ok_then_timeout (Suc 0) = Raised Timeout
   \<and> get_collateral_composition decode_nothing keep_order ok_then_timeout 0 = (None, Suc (Suc 0))"
proof -
  have a: "timeout_then_ok 0 = Raised Timeout" by (simp add: timeout_then_ok_def)
  have b: "fst (test_api_connection ok_then_timeout 0) \<and> ok_then_timeout (Suc 0) = Raised Timeout"
    using test_api_connection_ok_then_timeout by (simp add: ok_then_timeout_def)
  from transport_errors_are_raised[of timeout_then_ok 0 Timeout no_parse
      "(''WBTC/USDC'', ''0x3a85'')" decode_nothing keep_order] a
    transport_errors_are_raised[of ok_then_timeout 0 Timeout no_parse
      "(''WBTC/USDC'', ''0x3a85'')" decode_nothing keep_order] b
  show ?thesis by simp
qed

text \<open>
  Claim C3 as stated fails: on a timeout both fetches raise; neither returns a value that
  stands for a failed observation.
\<close>

theorem transport_errors_escape_counterexample:
  "fst (fetch_defi_positions timeout_then_ok 0)
     = Inl (Exception_RequestFailed (RequestException Timeout))
   \<and> fst (execute_query timeout_then_ok 0) = Inl (RequestException Timeout)"
  by (simp add: fetch_defi_positions_def execute_query_def zapper_result_def morpho_result_def
      timeout_then_ok_def)

lemma zapper_result_errors:
  assumes "body resp = Some (JObj kvs)" and "map_of kvs ''errors'' = Some errs"
  shows "zapper_result (Responded resp)
     = Inl (if status_code resp = 200 then Exception_GraphQL errs
            else Exception_HTTP (status_code resp) (reason resp) (http_error_detail resp))"
  using assms by (simp add: zapper_result_def)

lemma morpho_result_errors:
  assumes "body resp = Some (JObj kvs)" and "map_of kvs ''errors'' = Some errs"
  shows "morpho_result (Responded resp)
     = Inl (if 400 \<le> status_code resp \<and> status_code resp < 600
            then HTTPError (status_code resp) else Exception_GraphQL errs)"
  using assms by (simp add: morpho_result_def)

text \<open>
  Claim C4.  A response whose body holds a non-empty \<^verbatim>\<open>errors\<close> array makes both fetches fail
  (they raise, whatever the status code and whatever the \<^verbatim>\<open>data\<close> field holds, with the
  GraphQL errors as the exception when the status is 200); the market is reported with an
  error line, the connection test fails and the collateral section is \<^verbatim>\<open>None\<close>.  No data is
  returned.
\<close>

theorem graphql_errors_fail_fetch:
  "net n = Responded resp \<and> body resp = Some (JObj kvs)
     \<and> map_of kvs ''errors'' = Some (JArr (e # es)) \<longrightarrow>
   (\<exists>x. fst (fetch_defi_positions net n) = Inl x)
   \<and> (\<exists>x. fst (execute_query net n) = Inl x)
   \<and> (\<exists>x. report_markets parse net n [market] = ([ErrorFetching (fst market) x], Suc n))
   \<and> \<not> fst (test_api_connection net n)
   \<and> get_collateral_composition dec srt net n = (None, Suc n)
   \<and> (status_code resp = 200 \<longrightarrow>
        fst (fetch_defi_positions net n) = Inl (Exception_GraphQL (JArr (e # es)))
        \<and> fst (execute_query net n) = Inl (Exception_GraphQL (JArr (e # es))))"
proof (intro impI)
  assume h: "net n = Responded resp \<and> body resp = Some (JObj kvs)
     \<and> map_of kvs ''errors'' = Some (JArr (e # es))"
  then have r: "net n = Responded resp" and b: "body resp = Some (JObj kvs)"
    and k: "map_of kvs ''errors'' = Some (JArr (e # es))" by simp_all
  note z = zapper_result_errors[OF b k]
  note m = morpho_result_errors[OF b k]
  have t: "\<not> fst (test_api_connection net n)"
    by (simp add: test_api_connection_def r b k)
  have "report_markets parse net n [market]
      = ([ErrorFetching (fst market)
            (if 400 \<le> status_code resp \<and> status_code resp < 600
             then HTTPError (status_code resp) else Exception_GraphQL (JArr (e # es)))], Suc n)"
    by (simp add: report_markets_Cons r m report_market_def del: report_markets.simps(2))
  then have rm: "\<exists>x. report_markets parse net n [market] = ([ErrorFetching (fst market) x], Suc n)"
    by blast
  show "(\<exists>x. fst (fetch_defi_positions net n) = Inl x)
   \<and> (\<exists>x. fst (execute_query net n) = Inl x)
   \<and> (\<exists>x. report_markets parse net n [market] = ([ErrorFetching (fst market) x], Suc n))
   \<and> \<not> fst (test_api_connection net n)
   \<and> get_collateral_composition dec srt net n = (None, Suc n)
   \<and> (status_code resp = 200 \<longrightarrow>
        fst (fetch_defi_positions net n) = Inl (Exception_GraphQL (JArr (e # es)))
        \<and> fst (execute_query net n) = Inl (Exception_GraphQL (JArr (e # es))))"
    using rm t get_collateral_composition_test_fails[OF t, of dec srt]
    by (simp add: fetch_defi_positions_def execute_query_def r z m)
qed

theorem graphql_errors_fail_fetch_witness:
  "errors_always 0 = Responded errors_response
   \<and> body errors_response
       = Some (JObj [(''data'', sample_data),
                     (''errors'', JArr [JObj [(''message'', JStr ''rate limited'')]])])
   \<and> map_of [(''data'', sample_data),
              (''errors'', JArr [JObj [(''message'', JStr ''rate limited'')]])] ''data''
       = Some sample_data
   \<and> status_code errors_response = 200
   \<and> fst (fetch_defi_positions errors_always 0)
       = Inl (Exception_GraphQL (JArr [JObj [(''message'', JStr ''rate limited'')]]))
   \<and> fst (execute_query errors_always 0)
       = Inl (Exception_GraphQL (JArr [JObj [(''message'', JStr ''rate limited'')]]))
   \<and> \<not> fst (test_api_connection errors_always 0)
   \<and> get_collateral_composition decode_nothing keep_order errors_always 0 = (None, Suc 0)"
proof -
  have h: "errors_always 0 = Responded errors_response
    \<and> body errors_response
       = Some (JObj [(''data'', sample_data),
                     (''errors'', JArr [JObj [(''message'', JStr ''rate limited'')]])])
    \<and> map_of [(''data'', sample_data),
              (''errors'', JArr [JObj [(''message'', JStr ''rate limited'')]])] ''errors''
       = Some (JArr [JObj [(''message'', JStr ''rate limited'')]])"
    by (simp add: errors_always_def errors_response_def)
  have s: "status_code errors_response = 200" by (simp add: errors_response_def)
  from graphql_errors_fail_fetch[of errors_always 0 errors_response
        "[(''data'', sample_data), (''errors'', JArr [JObj [(''message'', JStr ''rate limited'')]])]"
        "JObj [(''message'', JStr ''rate limited'')]" "[]" no_parse "(''WBTC/USDC'', ''0x3a85'')"
        decode_nothing keep_order] h s
  show ?thesis by simp
qed

lemma get_defi_summary_count:
  "snd (get_defi_summary dec net n addrs) \<le> Suc (Suc n)"
  by (simp add: get_defi_summary_def fetch_defi_positions_def get_defi_positions_eq
      split: sum.splits prod.splits)

lemma get_collateral_composition_count:
  "snd (get_collateral_composition dec srt net n) \<le> n + 4"
proof -
  have "snd (get_defi_summary dec net (Suc (Suc n)) wallet_addresses) \<le> n + 4"
    using get_defi_summary_count[of dec net "Suc (Suc n)" wallet_addresses] by simp
  then show ?thesis
    by (auto simp: get_collateral_composition_def test_api_connection_def get_defi_positions_eq
        split: prod.splits sum.splits)
qed

text \<open>
  Claim C5, as amended.  Nothing is retried: a fetch sends exactly one request and its
  result is decided by the outcome of that request alone, whether a transport error, a
  failed status, GraphQL errors or data.  The market reports send one request for each
  market, three and two in all, and the collateral section at most four, none of them a
  second attempt.
\<close>

theorem one_request_per_fetch:
  "fetch_defi_positions net n = (zapper_result (net n), Suc n)
   \<and> execute_query net n = (morpho_result (net n), Suc n)
   \<and> get_stakehouse_situation parse net n
       = (concat (map (\<lambda>i. report_market parse (fst (stakehouse_markets ! i))
                               (morpho_result (net (n + i)))) [0..<3]), n + 3)
   \<and> get_lvlusd_pendle_situation parse net n
       = (concat (map (\<lambda>i. report_market parse (fst (lvlusd_markets ! i))
                               (morpho_result (net (n + i)))) [0..<2]), n + 2)
   \<and> snd (get_collateral_composition dec srt net n) \<le> n + 4"
proof -
  have s: "length stakehouse_markets = 3" and l: "length lvlusd_markets = 2"
    by (simp_all add: stakehouse_markets_def lvlusd_markets_def)
  have "get_stakehouse_situation parse net n
       = (concat (map (\<lambda>i. report_market parse (fst (stakehouse_markets ! i))
                               (morpho_result (net (n + i)))) [0..<3]), n + 3)"
    unfolding get_stakehouse_situation_def
    using report_markets_lines[of parse net n stakehouse_markets]
      report_markets_requests[of parse net n stakehouse_markets]
    by (simp only: s prod_eq_iff fst_conv snd_conv)
  moreover have "get_lvlusd_pendle_situation parse net n
       = (concat (map (\<lambda>i. report_market parse (fst (lvlusd_markets ! i))
                               (morpho_result (net (n + i)))) [0..<2]), n + 2)"
    unfolding get_lvlusd_pendle_situation_def
    using report_markets_lines[of parse net n lvlusd_markets]
      report_markets_requests[of parse net n lvlusd_markets]
    by (simp only: l prod_eq_iff fst_conv snd_conv)
  ultimately show ?thesis
    using get_collateral_composition_count[of dec srt net n]
    by (simp add: fetch_defi_positions_def execute_query_def)
qed

lemma morpho_result_ok: "morpho_result (Responded ok_response) = Inr sample_data"
  by (simp add: morpho_result_def ok_response_def)

lemma zapper_result_ok: "zapper_result (Responded ok_response) = Inr sample_data"
  by (simp add: zapper_result_def ok_response_def)

text \<open>
  Claim C5 as stated fails: when the first request times out and every later one would
  succeed, the fetch fails after its single request, and the second request of the
  Stakehouse report serves the second market, not the first one again.
\<close>

theorem no_retry_counterexample:
  "fetch_defi_positions timeout_then_ok 0
     = (Inl (Exception_RequestFailed (RequestException Timeout)), Suc 0)
   \<and> zapper_result (timeout_then_ok (Suc 0)) = Inr sample_data
   \<and> execute_query timeout_then_ok 0 = (Inl (RequestException Timeout), Suc 0)
   \<and> morpho_result (timeout_then_ok (Suc 0)) = Inr sample_data
   \<and> get_stakehouse_situation no_parse timeout_then_ok 0
       = (ErrorFetching ''cbBTC/USDC'' (RequestException Timeout)
            # report_market no_parse ''WBTC/USDC'' (Inr sample_data)
            @ report_market no_parse ''wstETH/USDC'' (Inr sample_data),
          3)"
proof -
  have t0: "timeout_then_ok 0 = Raised Timeout"
    and t1: "timeout_then_ok (Suc 0) = Responded ok_response"
    and t2: "timeout_then_ok (Suc (Suc 0)) = Responded ok_response"
    by (simp_all add: timeout_then_ok_def)
  have "get_stakehouse_situation no_parse timeout_then_ok 0
       = (ErrorFetching ''cbBTC/USDC'' (RequestException Timeout)
            # report_market no_parse ''WBTC/USDC'' (Inr sample_data)
            @ report_market no_parse ''wstETH/USDC'' (Inr sample_data),
          3)"
    by (simp add: get_stakehouse_situation_def stakehouse_markets_def report_markets_Cons
        t0 t1 t2 morpho_result_ok del: report_markets.simps(2))
       (simp add: morpho_result_def report_market_def)
  then show ?thesis
    by (simp add: fetch_defi_positions_def execute_query_def t0 t1 zapper_result_ok
        morpho_result_ok)
       (simp add: zapper_result_def morpho_result_def)
qed

section \<open>The percentages of the market reports\<close>
















section \<open>Claimable positions and the sorted reports\<close>

lemma float_0_01_value: "float_0_01 = 5764607523034235 / 576460752303423488"
  unfolding float_0_01_def by code_simp

lemma float_gt_iff: "float_gt x c \<longleftrightarrow> x = PosInf \<or> (\<exists>a. x = Finite a \<and> c < a)"
  by (cases x) simp_all

text \<open>
  Claim C9.  \<^verbatim>\<open>get_claimable_positions\<close> returns the positions of type \<^verbatim>\<open>CLAIMABLE\<close> whose
  balance is strictly above the float \<^verbatim>\<open>0.01\<close>, each as often as it occurs and in the order
  of the input, and no other; the input is only read.  A balance is above \<^verbatim>\<open>0.01\<close> when it
  is a number greater than \<open>5764607523034235 / 2 ^ 59\<close> or is positive infinity; a NaN
  balance is not.
\<close>

theorem get_claimable_positions_filter:
  "get_claimable_positions ps
     = filter (\<lambda>p. meta_type p = ''CLAIMABLE'' \<and> float_gt (balance_usd p) float_0_01) ps
   \<and> subseq (get_claimable_positions ps) ps
   \<and> set (get_claimable_positions ps)
       = {p \<in> set ps. meta_type p = ''CLAIMABLE''
            \<and> (balance_usd p = PosInf \<or> (\<exists>a. balance_usd p = Finite a \<and> float_0_01 < a))}
   \<and> float_0_01 = 5764607523034235 / 576460752303423488"
  by (simp add: get_claimable_positions_def float_0_01_value[symmetric] float_gt_iff)

theorem get_claimable_positions_filter_witness:
  "get_claimable_positions
     [sample_position ''CLAIMABLE'' (Finite 5), sample_position ''SUPPLIED'' (Finite 40),
      sample_position ''CLAIMABLE'' (Finite (5764607523034235 / 576460752303423488)),
      sample_position ''CLAIMABLE'' NaN,
      sample_position ''CLAIMABLE'' (Finite (1 / 200)), sample_position ''CLAIMABLE'' (Finite 2)]
   = [sample_position ''CLAIMABLE'' (Finite 5), sample_position ''CLAIMABLE'' (Finite 2)]"
proof -
  have "get_claimable_positions
     [sample_position ''CLAIMABLE'' (Finite 5), sample_position ''SUPPLIED'' (Finite 40),
      sample_position ''CLAIMABLE'' (Finite (5764607523034235 / 576460752303423488)),
      sample_position ''CLAIMABLE'' NaN,
      sample_position ''CLAIMABLE'' (Finite (1 / 200)), sample_position ''CLAIMABLE'' (Finite 2)]
   = filter (\<lambda>p. meta_type p = ''CLAIMABLE'' \<and> float_gt (balance_usd p) float_0_01)
     [sample_position ''CLAIMABLE'' (Finite 5), sample_position ''SUPPLIED'' (Finite 40),
      sample_position ''CLAIMABLE'' (Finite (5764607523034235 / 576460752303423488)),
      sample_position ''CLAIMABLE'' NaN,
      sample_position ''CLAIMABLE'' (Finite (1 / 200)), sample_position ''CLAIMABLE'' (Finite 2)]"
    using get_claimable_positions_filter by blast
  then show ?thesis
    by (simp add: float_0_01_value sample_position_def)
qed



lemma float_rank_inj: "float_rank x = float_rank y \<longleftrightarrow> x = y"
  by (cases x; cases y) simp_all



lemma sort_by_balance_desc_stable:
  assumes "\<forall>p\<in>set xs. balance_usd p \<noteq> NaN"
  shows "filter (\<lambda>p. balance_usd p = k) (sort_by_balance_desc srt xs)
           = filter (\<lambda>p. balance_usd p = k) xs"
proof -
  let ?f = "\<lambda>x. float_rank (balance_usd x)"
  have "filter (\<lambda>p. ?f p = float_rank k) (sort_key ?f (rev xs))
          = filter (\<lambda>p. ?f p = float_rank k) (rev xs)"
    by (rule sort_key_stable)
  then have "filter (\<lambda>p. balance_usd p = k) (sort_key ?f (rev xs))
          = filter (\<lambda>p. balance_usd p = k) (rev xs)"
    by (simp add: float_rank_inj)
  with assms show ?thesis
    by (simp add: sort_by_balance_desc_def list_all_iff flip: rev_filter)
qed









lemma sample_sorted:
  "sort_by_balance_desc srt
     [sample_position ''CLAIMABLE'' (Finite 5), sample_position ''SUPPLIED'' (Finite 40),
      sample_position ''CLAIMABLE'' (Finite 2)]
   = [sample_position ''SUPPLIED'' (Finite 40), sample_position ''CLAIMABLE'' (Finite 5),
      sample_position ''CLAIMABLE'' (Finite 2)]"
  by (simp add: sort_by_balance_desc_def sample_position_def less_eq_prod_def)

lemma sample_claimable_sorted:
  "sort_by_balance_desc srt
     [sample_position ''CLAIMABLE'' (Finite 5), sample_position ''CLAIMABLE'' (Finite 2)]
   = [sample_position ''CLAIMABLE'' (Finite 5), sample_position ''CLAIMABLE'' (Finite 2)]"
  by (simp add: sort_by_balance_desc_def sample_position_def less_eq_prod_def)


lemma sample_print_defi_report:
  "print_defi_report srt sample_summary
     [sample_position ''CLAIMABLE'' (Finite 5), sample_position ''SUPPLIED'' (Finite 40),
      sample_position ''CLAIMABLE'' (Finite 2)]
   = (None, [sample_position ''SUPPLIED'' (Finite 40), sample_position ''CLAIMABLE'' (Finite 5),
             sample_position ''CLAIMABLE'' (Finite 2)])"
  by (simp add: print_defi_report_def sample_sorted sample_summary_def)
     (simp add: defi_position_error_def sample_position_def)



lemma sample_claimable:
  "get_claimable_positions
     [sample_position ''SUPPLIED'' (Finite 40), sample_position ''CLAIMABLE'' (Finite 5),
      sample_position ''CLAIMABLE'' (Finite 2)]
   = [sample_position ''CLAIMABLE'' (Finite 5), sample_position ''CLAIMABLE'' (Finite 2)]"
  by (simp add: get_claimable_positions_def float_0_01_value sample_position_def)

lemma sample_print_claimable_report:
  "print_claimable_report srt
     [sample_position ''CLAIMABLE'' (Finite 5), sample_position ''CLAIMABLE'' (Finite 2)]
   = (None, [sample_position ''CLAIMABLE'' (Finite 5), sample_position ''CLAIMABLE'' (Finite 2)])"
  by (simp add: print_claimable_report_def sample_claimable_sorted)
     (simp add: sample_position_def)

lemma zapper_result_sample:
  "zapper_result (Responded zapper_response)
     = Inr (JObj [(''portfolioV2'',
                 JObj [(''appBalances'',
                   JObj [(''totalBalanceUSD'', JFloat (Finite 47))])])])"
  by (simp add: zapper_result_def zapper_response_def)

lemma sample_collateral:
  "get_collateral_composition decode_sample keep_order zapper_ok 0
     = (Some \<lparr>total_value = JFloat (Finite 47),
              positions = [sample_position ''SUPPLIED'' (Finite 40), sample_position ''CLAIMABLE'' (Finite 5),
                           sample_position ''CLAIMABLE'' (Finite 2)],
              claimable = [sample_position ''CLAIMABLE'' (Finite 5), sample_position ''CLAIMABLE'' (Finite 2)]\<rparr>,
        4)"
proof -
  have t: "test_api_connection zapper_ok 0 = (True, Suc 0)"
    by (simp add: test_api_connection_def zapper_ok_def zapper_response_def)
  have p: "\<And>n. get_defi_positions decode_sample zapper_ok n
      = (Inr [sample_position ''CLAIMABLE'' (Finite 5), sample_position ''SUPPLIED'' (Finite 40),
              sample_position ''CLAIMABLE'' (Finite 2)], Suc n)"
    by (simp add: get_defi_positions_eq zapper_ok_def zapper_result_sample decode_sample_def)
  have s: "get_defi_summary decode_sample zapper_ok (Suc (Suc 0)) wallet_addresses
      = (Inr \<lparr>addresses = wallet_addresses, chain_ids = None,
              total_value_usd = JFloat (Finite 47), position_count = 3\<rparr>, 4)"
    by (simp add: get_defi_summary_def fetch_defi_positions_def p zapper_ok_def
        zapper_result_sample json_path2_def)
  have d: "print_defi_report keep_order \<lparr>addresses = wallet_addresses, chain_ids = None,
              total_value_usd = JFloat (Finite 47), position_count = 3\<rparr>
     [sample_position ''CLAIMABLE'' (Finite 5), sample_position ''SUPPLIED'' (Finite 40),
      sample_position ''CLAIMABLE'' (Finite 2)]
   = (None, [sample_position ''SUPPLIED'' (Finite 40), sample_position ''CLAIMABLE'' (Finite 5),
             sample_position ''CLAIMABLE'' (Finite 2)])"
    using sample_print_defi_report[of keep_order]
    by (simp add: print_defi_report_def sample_summary_def)
  show ?thesis
    by (simp add: get_collateral_composition_def t p s d sample_claimable
        sample_print_claimable_report)
qed



section \<open>The sections of the dashboard\<close>

lemma main_supply_raises:
  assumes "get_supply_info (lvlUSD_call ev) (slvlUSD_call ev) = Inl e"
  shows "main ev = (nothing_fetched (\<not> check_web3_connections (connections ev)))
                     \<lparr>dashboard_error := Some e\<rparr>"
  using assms by (simp add: main_def)

lemma main_aUSDC_raises:
  assumes "get_supply_info (lvlUSD_call ev) (slvlUSD_call ev) = Inr s"
    and "get_aUSDC_situation (aEthUSDC_call ev) (variableDebt_call ev) = Inl e"
  shows "main ev = (nothing_fetched (\<not> check_web3_connections (connections ev)))
                     \<lparr>supply_data := Some s,
                      collateral_data :=
                        Some (fst (get_collateral_composition (decode ev) (nan_order ev) (zapper_net ev) 0)),
                      dashboard_error := Some e\<rparr>"
  using assms by (simp add: main_def nothing_fetched_def)

lemma main_all_fetched:
  assumes "get_supply_info (lvlUSD_call ev) (slvlUSD_call ev) = Inr s"
    and "get_aUSDC_situation (aEthUSDC_call ev) (variableDebt_call ev) = Inr a"
    and "slvlusd_pendle ev = Inr l"
  shows "main ev =
     \<lparr>warned = \<not> check_web3_connections (connections ev),
      supply_data = Some s,
      collateral_data = Some (fst (get_collateral_composition (decode ev) (nan_order ev) (zapper_net ev) 0)),
      aUSDC_data = Some a,
      stakehouse_data = Some (fst (get_stakehouse_situation (parse_float ev) (morpho_net ev) 0)),
      curve_data = Some (get_curve_pools (usdc_pool ev) (slvlusd_pool ev)),
      lvlusd_pendle_data =
        Some (fst (get_lvlusd_pendle_situation (parse_float ev) (morpho_net ev) 3)),
      slvlusd_pendle_data = Some l,
      dashboard_error = None\<rparr>"
proof -
  have n: "snd (get_stakehouse_situation (parse_float ev) (morpho_net ev) 0) = 3"
    using report_markets_requests[of "parse_float ev" "morpho_net ev" 0 stakehouse_markets]
    by (simp add: get_stakehouse_situation_def stakehouse_markets_def)
  obtain sh where sh: "get_stakehouse_situation (parse_float ev) (morpho_net ev) 0 = (sh, 3)"
    using n by (cases "get_stakehouse_situation (parse_float ev) (morpho_net ev) 0") simp
  obtain lp k where lp: "get_lvlusd_pendle_situation (parse_float ev) (morpho_net ev) 3 = (lp, k)"
    by (cases "get_lvlusd_pendle_situation (parse_float ev) (morpho_net ev) 3")
  show ?thesis
    using assms by (simp add: main_def nothing_fetched_def sh lp)
qed

lemma healthy_aUSDC:
  "get_aUSDC_situation (Inr (3 * 10 ^ 12)) (Inr (10 ^ 12))
     = Inr \<lparr>total_supply = Finite 3000000, total_borrow = Finite 1000000,
            available_liquidity = Finite 2000000\<rparr>"
  by (simp add: get_aUSDC_situation_def on_chain_scale_def int_truediv_def float_round_numeral
      to_float_def)

lemma healthy_curve:
  "get_curve_pools (GetBalances (Inr [2 * 10 ^ 6, 10 ^ 18])) (Balances (Inr (10 ^ 18)) (Inr (10 ^ 18)))
     = (PoolBalances (Finite 2) (Finite 1), PoolBalances (Finite 1) (Finite 1))"
proof -
  have one: "float_round 1 = 1" using float_round_of_int[of 1] by simp
  show ?thesis
    by (simp add: get_curve_pools_def get_token_balances_def list_index_def on_chain_scale_def
        int_truediv_def float_round_numeral one)
qed

lemma healthy_stakehouse:
  "get_stakehouse_situation no_parse morpho_ok 0
     = (report_market no_parse ''cbBTC/USDC'' (Inr sample_data)
          @ report_market no_parse ''WBTC/USDC'' (Inr sample_data)
          @ report_market no_parse ''wstETH/USDC'' (Inr sample_data), 3)"
  by (simp add: get_stakehouse_situation_def stakehouse_markets_def report_markets_Cons
      morpho_ok_def morpho_result_ok del: report_markets.simps(2))

lemma healthy_lvlusd_pendle:
  "get_lvlusd_pendle_situation no_parse morpho_ok 3
     = (report_market no_parse ''PT-lvlUSD-25SEP2025/lvlUSD'' (Inr sample_data)
          @ report_market no_parse ''PT-lvlUSD-25SEP2025/USDC'' (Inr sample_data), 5)"
  by (simp add: get_lvlusd_pendle_situation_def lvlusd_markets_def report_markets_Cons
      morpho_ok_def morpho_result_ok del: report_markets.simps(2))

text \<open>
  Claim C1 does not hold of \<^verbatim>\<open>main\<close>.  With every other source healthy, a lvlUSD supply read
  that raises, or that returns zero, leaves every section unfetched; an aUSDC read that
  raises leaves the Stakehouse, Curve and Pendle sections unfetched.  The last equation is
  the run with all sources healthy, in which every section is fetched.
\<close>

theorem one_failed_section_skips_the_rest:
  "main (healthy_env\<lparr>lvlUSD_call := Inl (ContractCallError ''connection refused'')\<rparr>)
     = (nothing_fetched False)\<lparr>dashboard_error := Some (ContractCallError ''connection refused'')\<rparr>
   \<and> main (healthy_env\<lparr>lvlUSD_call := Inr 0\<rparr>)
     = (nothing_fetched False)\<lparr>dashboard_error := Some ZeroDivisionError\<rparr>
   \<and> main (healthy_env\<lparr>aEthUSDC_call := Inl (ContractCallError ''connection refused'')\<rparr>)
     = (nothing_fetched False)
         \<lparr>supply_data := Some \<lparr>lvlUSD_supply = Finite 1000000, slvlUSD_supply = Finite 250000,
                                 percentage = Finite 25\<rparr>,
          collateral_data := Some (Some
             \<lparr>total_value = JFloat (Finite 47),
              positions = [sample_position ''SUPPLIED'' (Finite 40), sample_position ''CLAIMABLE'' (Finite 5),
                           sample_position ''CLAIMABLE'' (Finite 2)],
              claimable = [sample_position ''CLAIMABLE'' (Finite 5), sample_position ''CLAIMABLE'' (Finite 2)]\<rparr>),
          dashboard_error := Some (ContractCallError ''connection refused'')\<rparr>
   \<and> main healthy_env
     = \<lparr>warned = False,
        supply_data = Some \<lparr>lvlUSD_supply = Finite 1000000, slvlUSD_supply = Finite 250000,
                               percentage = Finite 25\<rparr>,
        collateral_data = Some (Some
             \<lparr>total_value = JFloat (Finite 47),
              positions = [sample_position ''SUPPLIED'' (Finite 40), sample_position ''CLAIMABLE'' (Finite 5),
                           sample_position ''CLAIMABLE'' (Finite 2)],
              claimable = [sample_position ''CLAIMABLE'' (Finite 5), sample_position ''CLAIMABLE'' (Finite 2)]\<rparr>),
        aUSDC_data = Some \<lparr>total_supply = Finite 3000000, total_borrow = Finite 1000000,
                              available_liquidity = Finite 2000000\<rparr>,
        stakehouse_data = Some (report_market no_parse ''cbBTC/USDC'' (Inr sample_data)
          @ report_market no_parse ''WBTC/USDC'' (Inr sample_data)
          @ report_market no_parse ''wstETH/USDC'' (Inr sample_data)),
        curve_data = Some (PoolBalances (Finite 2) (Finite 1), PoolBalances (Finite 1) (Finite 1)),
        lvlusd_pendle_data =
          Some (report_market no_parse ''PT-lvlUSD-25SEP2025/lvlUSD'' (Inr sample_data)
                  @ report_market no_parse ''PT-lvlUSD-25SEP2025/USDC'' (Inr sample_data)),
        slvlusd_pendle_data = Some [],
        dashboard_error = None\<rparr>"
proof (intro conjI)
  have c: "check_web3_connections [True, True, True]" by (simp add: check_web3_connections_def)
  show "main (healthy_env\<lparr>lvlUSD_call := Inl (ContractCallError ''connection refused'')\<rparr>)
     = (nothing_fetched False)\<lparr>dashboard_error := Some (ContractCallError ''connection refused'')\<rparr>"
    by (subst main_supply_raises[where e = "ContractCallError ''connection refused''"])
       (simp_all add: healthy_env_def get_supply_info_def c)
  show "main (healthy_env\<lparr>lvlUSD_call := Inr 0\<rparr>)
     = (nothing_fetched False)\<lparr>dashboard_error := Some ZeroDivisionError\<rparr>"
    by (subst main_supply_raises[where e = ZeroDivisionError])
       (simp_all add: healthy_env_def get_supply_info_def c
          on_chain_scale_def int_truediv_def float_round_numeral float_round_zero)
  show "main (healthy_env\<lparr>aEthUSDC_call := Inl (ContractCallError ''connection refused'')\<rparr>)
     = (nothing_fetched False)
         \<lparr>supply_data := Some \<lparr>lvlUSD_supply = Finite 1000000, slvlUSD_supply = Finite 250000,
                                 percentage = Finite 25\<rparr>,
          collateral_data := Some (Some
             \<lparr>total_value = JFloat (Finite 47),
              positions = [sample_position ''SUPPLIED'' (Finite 40), sample_position ''CLAIMABLE'' (Finite 5),
                           sample_position ''CLAIMABLE'' (Finite 2)],
              claimable = [sample_position ''CLAIMABLE'' (Finite 5), sample_position ''CLAIMABLE'' (Finite 2)]\<rparr>),
          dashboard_error := Some (ContractCallError ''connection refused'')\<rparr>"
    by (subst main_aUSDC_raises[where e = "ContractCallError ''connection refused''"
          and s = "\<lparr>lvlUSD_supply = Finite 1000000, slvlUSD_supply = Finite 250000,
                     percentage = Finite 25\<rparr>"])
       (use get_supply_info_example in
          \<open>simp_all add: healthy_env_def get_aUSDC_situation_def c sample_collateral\<close>)
  show "main healthy_env
     = \<lparr>warned = False,
        supply_data = Some \<lparr>lvlUSD_supply = Finite 1000000, slvlUSD_supply = Finite 250000,
                               percentage = Finite 25\<rparr>,
        collateral_data = Some (Some
             \<lparr>total_value = JFloat (Finite 47),
              positions = [sample_position ''SUPPLIED'' (Finite 40), sample_position ''CLAIMABLE'' (Finite 5),
                           sample_position ''CLAIMABLE'' (Finite 2)],
              claimable = [sample_position ''CLAIMABLE'' (Finite 5), sample_position ''CLAIMABLE'' (Finite 2)]\<rparr>),
        aUSDC_data = Some \<lparr>total_supply = Finite 3000000, total_borrow = Finite 1000000,
                              available_liquidity = Finite 2000000\<rparr>,
        stakehouse_data = Some (report_market no_parse ''cbBTC/USDC'' (Inr sample_data)
          @ report_market no_parse ''WBTC/USDC'' (Inr sample_data)
          @ report_market no_parse ''wstETH/USDC'' (Inr sample_data)),
        curve_data = Some (PoolBalances (Finite 2) (Finite 1), PoolBalances (Finite 1) (Finite 1)),
        lvlusd_pendle_data =
          Some (report_market no_parse ''PT-lvlUSD-25SEP2025/lvlUSD'' (Inr sample_data)
                  @ report_market no_parse ''PT-lvlUSD-25SEP2025/USDC'' (Inr sample_data)),
        slvlusd_pendle_data = Some [],
        dashboard_error = None\<rparr>"
    by (subst main_all_fetched[where l = "[]"
          and s = "\<lparr>lvlUSD_supply = Finite 1000000, slvlUSD_supply = Finite 250000,
                     percentage = Finite 25\<rparr>"
          and a = "\<lparr>total_supply = Finite 3000000, total_borrow = Finite 1000000,
                              available_liquidity = Finite 2000000\<rparr>"])
       (use get_supply_info_example healthy_aUSDC healthy_curve in
          \<open>simp_all add: healthy_env_def c sample_collateral healthy_stakehouse
             healthy_lvlusd_pendle\<close>)
qed

end
